theory Spec2Isabelle
  imports Main "HOL-Library.Word"
begin

unbundle bit_operations_syntax

section \<open>RecordingEvent: the recording event bus\<close>

subsection \<open>Event names\<close>

text \<open>The constants of namespace \<open>RecordingEvent\<close> (RecordingEvent.ts, lines 207-216).\<close>

definition START_PREP_RRECORDING_EVENT :: string where
  "START_PREP_RRECORDING_EVENT = ''StartPrepRecording''"

definition CANCEL_PREP_RRECORDING_EVENT :: string where
  "CANCEL_PREP_RRECORDING_EVENT = ''CancelPrepRecording''"

definition PREP_RECORDING_FAILED_EVENT :: string where
  "PREP_RECORDING_FAILED_EVENT = ''PrepRecordingFailed''"

definition START_RECORDING_EVENT :: string where
  "START_RECORDING_EVENT = ''StartRecordingEvent''"

definition RECORDING_FAILED_EVENT :: string where
  "RECORDING_FAILED_EVENT = ''RecordingFailedEvent''"

definition RECORDING_RETRY_OVER_EVENT :: string where
  "RECORDING_RETRY_OVER_EVENT = ''RecordingRetryOverEvent''"

definition FINISH_RECORDING_EVENT :: string where
  "FINISH_RECORDING_EVENT = ''FinishRecordingEvent''"

definition EVENT_RELAY_EVENT :: string where
  "EVENT_RELAY_EVENT = ''EventRelayEvent''"

subsection \<open>Callbacks, the observable world, and Node's EventEmitter\<close>

text \<open>
  A callback handed to one of the \<open>set...\<close> methods is an arbitrary JavaScript function.
  Called with the argument values it either returns (possibly a promise that resolves),
  throws synchronously, or returns a promise that rejects. The \<open>label\<close> identifies the
  callback in the invocation trace.
\<close>

datatype 'e cb_result = Returns | Throws 'e | Rejects 'e

record ('v, 'e) callback =
  label :: nat
  body :: "'v list \<Rightarrow> 'e cb_result"

text \<open>
  What can be observed of a dispatch: the callbacks invoked, with their arguments, in
  order (\<open>calls\<close>); the lines written through \<open>this.log.system.error\<close> (\<open>errlog\<close>); and
  the rejections whose \<open>catch\<close> block is still waiting in the microtask queue (\<open>microtasks\<close>).
\<close>

record ('v, 'e) world =
  calls :: "(nat \<times> 'v list) list"
  errlog :: "'e list"
  microtasks :: "'e list"

text \<open>
  A listener stored in the EventEmitter is a function of the emitted arguments; called, it
  either returns or throws (\<open>Inl\<close>). The emitter keeps the listeners with the event name
  they were registered under, in registration order (\<open>emitter.on\<close> appends).
\<close>

type_synonym ('v, 'e) listener = "'v list \<Rightarrow> ('v, 'e) world \<Rightarrow> ('e + unit) \<times> ('v, 'e) world"

type_synonym ('v, 'e) emitter = "(string \<times> ('v, 'e) listener) list"

definition emitter_on :: "('v, 'e) emitter \<Rightarrow> string \<Rightarrow> ('v, 'e) listener \<Rightarrow> ('v, 'e) emitter" where
  "emitter_on em name l = em @ [(name, l)]"

text \<open>
  \<open>EventEmitter.emit\<close>: the listeners registered for the name are called synchronously, in
  registration order, each with the supplied arguments. A listener that throws ends the
  dispatch: the exception leaves \<open>emit\<close> and the listeners after it are not called.
\<close>

fun call_listeners :: "('v, 'e) listener list \<Rightarrow> 'v list \<Rightarrow> ('v, 'e) world \<Rightarrow> ('e + unit) \<times> ('v, 'e) world" where
  "call_listeners [] args w = (Inr (), w)"
| "call_listeners (l # ls) args w =
     (case l args w of
        (Inl e, w') \<Rightarrow> (Inl e, w')
      | (Inr u, w') \<Rightarrow> call_listeners ls args w')"

definition emitter_emit :: "('v, 'e) emitter \<Rightarrow> string \<Rightarrow> 'v list \<Rightarrow> ('v, 'e) world \<Rightarrow> ('e + unit) \<times> ('v, 'e) world" where
  "emitter_emit em name args w =
     call_listeners (map snd (filter (\<lambda>p. fst p = name) em)) args w"

text \<open>
  The microtask queue runs after the synchronous dispatch has returned: the \<open>catch\<close> block
  of each wrapper whose awaited promise rejected logs the rejection.
\<close>

definition run_microtasks :: "('v, 'e) world \<Rightarrow> ('v, 'e) world" where
  "run_microtasks w = w\<lparr>errlog := errlog w @ microtasks w, microtasks := []\<rparr>"

subsection \<open>Registration\<close>

text \<open>
  Every \<open>set...\<close> method registers the same wrapper, an async function of \<open>n\<close> parameters:
  \<^verbatim>\<open>async (a1, ..., an) => { try { await callback(a1, ..., an); } catch (err) { this.log.system.error(err); } }\<close>
  The call \<open>callback(...)\<close> happens synchronously inside the wrapper. A synchronous throw
  is caught and logged at once; a rejection is caught when the awaited promise settles.
  The async wrapper itself returns a promise and never throws into \<open>emit\<close>.
\<close>

definition wrapper :: "nat \<Rightarrow> ('v, 'e) callback \<Rightarrow> ('v, 'e) listener" where
  "wrapper n cb args w =
     (let w1 = w\<lparr>calls := calls w @ [(label cb, take n args)]\<rparr> in
      case body cb (take n args) of
        Returns \<Rightarrow> (Inr (), w1)
      | Throws e \<Rightarrow> (Inr (), w1\<lparr>errlog := errlog w1 @ [e]\<rparr>)
      | Rejects e \<Rightarrow> (Inr (), w1\<lparr>microtasks := microtasks w1 @ [e]\<rparr>))"

definition setStartPrepRecording :: "('v, 'e) emitter \<Rightarrow> ('v, 'e) callback \<Rightarrow> ('v, 'e) emitter" where
  "setStartPrepRecording em cb = emitter_on em START_PREP_RRECORDING_EVENT (wrapper 1 cb)"

definition setCancelPrepRecording :: "('v, 'e) emitter \<Rightarrow> ('v, 'e) callback \<Rightarrow> ('v, 'e) emitter" where
  "setCancelPrepRecording em cb = emitter_on em CANCEL_PREP_RRECORDING_EVENT (wrapper 1 cb)"

definition setPrepRecordingFailed :: "('v, 'e) emitter \<Rightarrow> ('v, 'e) callback \<Rightarrow> ('v, 'e) emitter" where
  "setPrepRecordingFailed em cb = emitter_on em PREP_RECORDING_FAILED_EVENT (wrapper 1 cb)"

definition setStartRecording :: "('v, 'e) emitter \<Rightarrow> ('v, 'e) callback \<Rightarrow> ('v, 'e) emitter" where
  "setStartRecording em cb = emitter_on em START_RECORDING_EVENT (wrapper 2 cb)"

definition setRecordingFailed :: "('v, 'e) emitter \<Rightarrow> ('v, 'e) callback \<Rightarrow> ('v, 'e) emitter" where
  "setRecordingFailed em cb = emitter_on em RECORDING_FAILED_EVENT (wrapper 2 cb)"

definition setRecordingRetryOver :: "('v, 'e) emitter \<Rightarrow> ('v, 'e) callback \<Rightarrow> ('v, 'e) emitter" where
  "setRecordingRetryOver em cb = emitter_on em RECORDING_RETRY_OVER_EVENT (wrapper 1 cb)"

definition setFinishRecording :: "('v, 'e) emitter \<Rightarrow> ('v, 'e) callback \<Rightarrow> ('v, 'e) emitter" where
  "setFinishRecording em cb = emitter_on em FINISH_RECORDING_EVENT (wrapper 3 cb)"

definition setEventRelay :: "('v, 'e) emitter \<Rightarrow> ('v, 'e) callback \<Rightarrow> ('v, 'e) emitter" where
  "setEventRelay em cb = emitter_on em EVENT_RELAY_EVENT (wrapper 1 cb)"

subsection \<open>Emission\<close>

definition emitStartPrepRecording :: "('v, 'e) emitter \<Rightarrow> 'v \<Rightarrow> ('v, 'e) world \<Rightarrow> ('e + unit) \<times> ('v, 'e) world" where
  "emitStartPrepRecording em reserve = emitter_emit em START_PREP_RRECORDING_EVENT [reserve]"

definition emitCancelPrepRecording :: "('v, 'e) emitter \<Rightarrow> 'v \<Rightarrow> ('v, 'e) world \<Rightarrow> ('e + unit) \<times> ('v, 'e) world" where
  "emitCancelPrepRecording em reserve = emitter_emit em CANCEL_PREP_RRECORDING_EVENT [reserve]"

definition emitPrepRecordingFailed :: "('v, 'e) emitter \<Rightarrow> 'v \<Rightarrow> ('v, 'e) world \<Rightarrow> ('e + unit) \<times> ('v, 'e) world" where
  "emitPrepRecordingFailed em reserve = emitter_emit em PREP_RECORDING_FAILED_EVENT [reserve]"

definition emitStartRecording :: "('v, 'e) emitter \<Rightarrow> 'v \<Rightarrow> 'v \<Rightarrow> ('v, 'e) world \<Rightarrow> ('e + unit) \<times> ('v, 'e) world" where
  "emitStartRecording em reserve recorded = emitter_emit em START_RECORDING_EVENT [reserve, recorded]"

definition emitRecordingFailed :: "('v, 'e) emitter \<Rightarrow> 'v \<Rightarrow> 'v \<Rightarrow> ('v, 'e) world \<Rightarrow> ('e + unit) \<times> ('v, 'e) world" where
  "emitRecordingFailed em reserve recorded = emitter_emit em RECORDING_FAILED_EVENT [reserve, recorded]"

definition emitRecordingRetryOver :: "('v, 'e) emitter \<Rightarrow> 'v \<Rightarrow> ('v, 'e) world \<Rightarrow> ('e + unit) \<times> ('v, 'e) world" where
  "emitRecordingRetryOver em reserve = emitter_emit em RECORDING_RETRY_OVER_EVENT [reserve]"

definition emitFinishRecording :: "('v, 'e) emitter \<Rightarrow> 'v \<Rightarrow> 'v \<Rightarrow> 'v \<Rightarrow> ('v, 'e) world \<Rightarrow> ('e + unit) \<times> ('v, 'e) world" where
  "emitFinishRecording em reserve recorded isNeedDeleteReservation =
     emitter_emit em FINISH_RECORDING_EVENT [reserve, recorded, isNeedDeleteReservation]"

definition emitEventRelay :: "('v, 'e) emitter \<Rightarrow> 'v \<Rightarrow> ('v, 'e) world \<Rightarrow> ('e + unit) \<times> ('v, 'e) world" where
  "emitEventRelay em programs = emitter_emit em EVENT_RELAY_EVENT [programs]"

subsection \<open>The eight event kinds, uniformly\<close>

text \<open>
  To speak about "every event kind", the sixteen methods are indexed by a kind; an event
  is a kind with the arguments its \<open>emit...\<close> method takes.
\<close>

datatype kind =
  StartPrep | CancelPrep | PrepFailed | Start | Failed | RetryOver | Finish | EventRelay

datatype 'v event =
  EvStartPrep 'v
| EvCancelPrep 'v
| EvPrepFailed 'v
| EvStart 'v 'v
| EvFailed 'v 'v
| EvRetryOver 'v
| EvFinish 'v 'v 'v
| EvEventRelay 'v

fun kind_of :: "'v event \<Rightarrow> kind" where
  "kind_of (EvStartPrep r) = StartPrep"
| "kind_of (EvCancelPrep r) = CancelPrep"
| "kind_of (EvPrepFailed r) = PrepFailed"
| "kind_of (EvStart r d) = Start"
| "kind_of (EvFailed r d) = Failed"
| "kind_of (EvRetryOver r) = RetryOver"
| "kind_of (EvFinish r d b) = Finish"
| "kind_of (EvEventRelay p) = EventRelay"

fun args_of :: "'v event \<Rightarrow> 'v list" where
  "args_of (EvStartPrep r) = [r]"
| "args_of (EvCancelPrep r) = [r]"
| "args_of (EvPrepFailed r) = [r]"
| "args_of (EvStart r d) = [r, d]"
| "args_of (EvFailed r d) = [r, d]"
| "args_of (EvRetryOver r) = [r]"
| "args_of (EvFinish r d b) = [r, d, b]"
| "args_of (EvEventRelay p) = [p]"

fun name_of :: "kind \<Rightarrow> string" where
  "name_of StartPrep = START_PREP_RRECORDING_EVENT"
| "name_of CancelPrep = CANCEL_PREP_RRECORDING_EVENT"
| "name_of PrepFailed = PREP_RECORDING_FAILED_EVENT"
| "name_of Start = START_RECORDING_EVENT"
| "name_of Failed = RECORDING_FAILED_EVENT"
| "name_of RetryOver = RECORDING_RETRY_OVER_EVENT"
| "name_of Finish = FINISH_RECORDING_EVENT"
| "name_of EventRelay = EVENT_RELAY_EVENT"

fun arity :: "kind \<Rightarrow> nat" where
  "arity StartPrep = 1"
| "arity CancelPrep = 1"
| "arity PrepFailed = 1"
| "arity Start = 2"
| "arity Failed = 2"
| "arity RetryOver = 1"
| "arity Finish = 3"
| "arity EventRelay = 1"

fun emit :: "('v, 'e) emitter \<Rightarrow> 'v event \<Rightarrow> ('v, 'e) world \<Rightarrow> ('e + unit) \<times> ('v, 'e) world" where
  "emit em (EvStartPrep r) = emitStartPrepRecording em r"
| "emit em (EvCancelPrep r) = emitCancelPrepRecording em r"
| "emit em (EvPrepFailed r) = emitPrepRecordingFailed em r"
| "emit em (EvStart r d) = emitStartRecording em r d"
| "emit em (EvFailed r d) = emitRecordingFailed em r d"
| "emit em (EvRetryOver r) = emitRecordingRetryOver em r"
| "emit em (EvFinish r d b) = emitFinishRecording em r d b"
| "emit em (EvEventRelay p) = emitEventRelay em p"

fun register :: "('v, 'e) emitter \<Rightarrow> kind \<times> ('v, 'e) callback \<Rightarrow> ('v, 'e) emitter" where
  "register em (StartPrep, cb) = setStartPrepRecording em cb"
| "register em (CancelPrep, cb) = setCancelPrepRecording em cb"
| "register em (PrepFailed, cb) = setPrepRecordingFailed em cb"
| "register em (Start, cb) = setStartRecording em cb"
| "register em (Failed, cb) = setRecordingFailed em cb"
| "register em (RetryOver, cb) = setRecordingRetryOver em cb"
| "register em (Finish, cb) = setFinishRecording em cb"
| "register em (EventRelay, cb) = setEventRelay em cb"

text \<open>
  A bus is a fresh emitter (\<open>new events.EventEmitter()\<close>, no listeners) on which the
  \<open>set...\<close> methods were called in the order of the registration history \<open>regs\<close>.
\<close>

definition bus :: "(kind \<times> ('v, 'e) callback) list \<Rightarrow> ('v, 'e) emitter" where
  "bus regs = foldl register [] regs"

text \<open>The callbacks registered for a kind, in registration order.\<close>

definition registered_for :: "kind \<Rightarrow> (kind \<times> ('v, 'e) callback) list \<Rightarrow> ('v, 'e) callback list" where
  "registered_for k regs = map snd (filter (\<lambda>p. fst p = k) regs)"

text \<open>What a callback throws synchronously, and what it rejects with, if anything.\<close>

fun thrown_of :: "'e cb_result \<Rightarrow> 'e list" where
  "thrown_of (Throws e) = [e]"
| "thrown_of _ = []"

fun rejected_of :: "'e cb_result \<Rightarrow> 'e list" where
  "rejected_of (Rejects e) = [e]"
| "rejected_of _ = []"

text \<open>
  The world after the wrappers of the callbacks \<open>cbs\<close> have been called, one after the
  other, with \<open>args\<close>: every callback was invoked, what was thrown is logged, what was
  rejected waits for the microtask queue.
\<close>

definition after_calls :: "nat \<Rightarrow> ('v, 'e) callback list \<Rightarrow> 'v list \<Rightarrow> ('v, 'e) world \<Rightarrow> ('v, 'e) world" where
  "after_calls n cbs args w =
     w\<lparr>calls := calls w @ map (\<lambda>cb. (label cb, take n args)) cbs,
       errlog := errlog w @ concat (map (\<lambda>cb. thrown_of (body cb (take n args))) cbs),
       microtasks := microtasks w @ concat (map (\<lambda>cb. rejected_of (body cb (take n args))) cbs)\<rparr>"

text \<open>The invocations an emission adds to a trace that had \<open>n\<close> entries before it.\<close>

definition new_calls :: "('v, 'e) world \<Rightarrow> ('v, 'e) world \<Rightarrow> (nat \<times> 'v list) list" where
  "new_calls w w' = drop (length (calls w)) (calls w')"

section \<open>DropCheck: the command-line tool\<close>

subsection \<open>Values and effects\<close>

text \<open>A JavaScript error value, identified by its message.\<close>

datatype error = Error string

text \<open>
  The fixed messages of DropCheck.ts, by the line that prints them (the texts are
  Japanese): line 38 "no input file given", lines 39 and 40 the two usage lines, line 53
  "drop check started", line 84 "drop check failed", line 105 "drop check finished",
  line 111 "release or reading of the drop information failed". \<open>UsagePositional\<close> is
  the one usage line of the older revision of the file. \<open>Text\<close> is any other string,
  \<open>Detail\<close> an error value printed by \<open>console.error(err)\<close>.
\<close>

datatype line =
  NoInputFile | Usage1 | Usage2 | CheckStarted | CheckFailed | CheckFinished | ReleaseFailed
| UsagePositional | Text string | Detail error

datatype json = JString string | JArray "json list" | JObject "(string \<times> json) list"

datatype effect =
  Stdout line
| Stderr line
| LoggerInitialize
| CreateReadStream string
| ProgressStart nat nat
| ProgressUpdate nat
| ProgressStop
| Push string
| Pipe
| CheckerStart string string
| CheckerGetResult
| CheckerStop
| TransformEnd
| TransformUnpipe
| ReadableClose
| HttpsRequest string string "(string \<times> string) list"
| RequestWrite json
| RequestEnd

text \<open>
  How a run of the process ends: \<open>process.exit(n)\<close> was called, or \<open>run\<close> returned (its
  promise resolved) and Node ends the process with code 0 once nothing is pending, or
  an exception or a rejected promise was left with nobody to handle it: what the process
  does then is decided by Node, not by the program.
\<close>

datatype outcome = Exited nat | Returned | Uncaught error

fun exit_code :: "outcome \<Rightarrow> nat option" where
  "exit_code (Exited n) = Some n"
| "exit_code Returned = Some 0"
| "exit_code (Uncaught e) = None"

text \<open>A settled promise, with \<open>promise.catch(handler)\<close>.\<close>

datatype 'a settled = Resolved 'a | Rejected error

fun catch :: "'a settled \<Rightarrow> (error \<Rightarrow> 'a settled) \<Rightarrow> 'a settled" where
  "catch (Resolved a) h = Resolved a"
| "catch (Rejected e) h = h e"

subsection \<open>The integrity result\<close>

text \<open>
  \<open>aribts.Result\<close>: an object from channel identifier to counters; \<open>for (const pid in
  dropResult)\<close> visits its keys in order. The counters are counts of packets: natural
  numbers, which JavaScript adds exactly below \<open>2 ^ 53\<close>.
\<close>

record counters =
  error_count :: nat
  drop_count :: nat
  scrambling_count :: nat

type_synonym result = "(nat \<times> counters) list"

text \<open>The three loops of lines 162-166 and 184-188, one accumulator each.\<close>

definition total_error :: "result \<Rightarrow> nat" where
  "total_error dropResult = foldl (\<lambda>acc p. acc + error_count (snd p)) 0 dropResult"

definition total_drop :: "result \<Rightarrow> nat" where
  "total_drop dropResult = foldl (\<lambda>acc p. acc + drop_count (snd p)) 0 dropResult"

definition total_scrambling :: "result \<Rightarrow> nat" where
  "total_scrambling dropResult = foldl (\<lambda>acc p. acc + scrambling_count (snd p)) 0 dropResult"

text \<open>A number in a template or string concatenation: its decimal digits.\<close>

definition digit_char :: "nat \<Rightarrow> char" where
  "digit_char n = ''0123456789'' ! n"

fun string_of_nat :: "nat \<Rightarrow> string" where
  "string_of_nat n =
     (if n < 10 then [digit_char n]
      else string_of_nat (n div 10) @ [digit_char (n mod 10)])"

declare string_of_nat.simps [simp del]

subsection \<open>Command line\<close>

text \<open>
  The object minimist returns for the options of lines 25-32: \<open>input\<close> and \<open>output\<close> are
  strings when given and \<open>undefined\<close> (\<open>None\<close>) when not; the boolean \<open>slack\<close> is \<open>false\<close>
  when the flag is absent.
  (\<open>input\<close> and \<open>output\<close> are reserved words here, hence the prefix.)
\<close>

record args =
  arg_input :: "string option"
  arg_output :: "string option"
  arg_slack :: bool

record dropcheck =
  srcM2tsPath :: string
  dstLogDirPath :: "string option"
  isPostToSlack :: bool

text \<open>
  The constructor (lines 23-47). \<open>process.exit(1)\<close> ends the process inside the
  constructor: \<open>Inl\<close> carries what was written before it and the exit code.
\<close>

definition constructor :: "args \<Rightarrow> (effect list \<times> nat) + dropcheck" where
  "constructor a =
     (if arg_input a = None \<or> arg_input a = Some ''''
      then Inl ([Stderr NoInputFile, Stderr Usage1, Stderr Usage2], 1)
      else Inr \<lparr>srcM2tsPath = the (arg_input a), dstLogDirPath = arg_output a, isPostToSlack = arg_slack a\<rparr>)"

text \<open>
  The source tree holds a second, older revision of the same file, without the webhook
  and with positional arguments. Its \<open>run\<close>, \<open>_createTransformStream\<close> and
  \<open>_printDropResult\<close> are the ones above, line for line; its constructor reads
  \<open>process.argv\<close> directly: fewer than three entries (the interpreter, the script and
  nothing else) print the usage line and exit with code 1; otherwise the third entry is
  the input path and the fourth, if any, the output directory.
\<close>

definition constructor_positional :: "string list \<Rightarrow> (effect list \<times> nat) + dropcheck" where
  "constructor_positional argv =
     (if length argv < 3 then Inl ([Stderr UsagePositional], 1)
      else Inr \<lparr>srcM2tsPath = argv ! 2,
                dstLogDirPath = (if 3 < length argv then Some (argv ! 3) else None),
                isPostToSlack = False\<rparr>)"

subsection \<open>Progress bar\<close>

text \<open>
  \<open>_createTransformStream\<close> (lines 125-152). The closure variables \<open>bytesRead\<close> and
  \<open>count\<close> are the state of the stream; \<open>fsize\<close> is the \<open>size\<close> that \<open>fs.statSync\<close> reported.
\<close>

record progress =
  bytesRead :: nat
  count :: nat

definition createTransformStream :: "nat \<Rightarrow> progress \<times> effect list" where
  "createTransformStream fsize = (\<lparr>bytesRead = 0, count = 0\<rparr>, [ProgressStart fsize 0])"

definition transform :: "progress \<Rightarrow> string \<Rightarrow> progress \<times> effect list" where
  "transform st chunk =
     (let b = bytesRead st + length chunk;
          c = count st + 1
      in if c = 100
         then (\<lparr>bytesRead = b, count = 0\<rparr>, [ProgressUpdate b, Push chunk])
         else (\<lparr>bytesRead = b, count = c\<rparr>, [Push chunk]))"

definition flush :: "nat \<Rightarrow> effect list" where
  "flush fsize = [ProgressUpdate fsize, ProgressStop]"

text \<open>The stream fed with a list of chunks, one call of \<open>transform\<close> each.\<close>

fun transform_all :: "progress \<Rightarrow> string list \<Rightarrow> progress \<times> effect list" where
  "transform_all st [] = (st, [])"
| "transform_all st (chunk # chunks) =
     (case transform st chunk of
        (st', es) \<Rightarrow> (case transform_all st' chunks of (st'', es') \<Rightarrow> (st'', es @ es')))"

text \<open>A whole input: creation, every chunk, then the flush at the end of the stream.\<close>

definition stream_effects :: "nat \<Rightarrow> string list \<Rightarrow> effect list" where
  "stream_effects fsize chunks =
     (case createTransformStream fsize of
        (st, es) \<Rightarrow> es @ snd (transform_all st chunks) @ flush fsize)"

fun is_progress :: "effect \<Rightarrow> bool" where
  "is_progress (ProgressStart t v) = True"
| "is_progress (ProgressUpdate v) = True"
| "is_progress ProgressStop = True"
| "is_progress _ = False"

fun is_push :: "effect \<Rightarrow> bool" where
  "is_push (Push c) = True"
| "is_push _ = False"

text \<open>The bytes in the first \<open>n\<close> chunks.\<close>

definition bytes_upto :: "string list \<Rightarrow> nat \<Rightarrow> nat" where
  "bytes_upto chunks n = sum_list (map length (take n chunks))"

subsection \<open>Printing and posting the result\<close>

definition printDropResult :: "result \<Rightarrow> effect list" where
  "printDropResult dropResult =
     [Stdout (Text (''error      : '' @ string_of_nat (total_error dropResult))),
      Stdout (Text (''drop       : '' @ string_of_nat (total_drop dropResult))),
      Stdout (Text (''scrambling : '' @ string_of_nat (total_scrambling dropResult)))]"

text \<open>
  The address of the webhook (line 178). The source holds a placeholder, to be replaced
  by the address of the installation.
\<close>

definition SLACK_WEBHOOK_URL :: string where
  "SLACK_WEBHOOK_URL = ''WEB_HOOK_URL_HERE''"

text \<open>
  \<open>error | drop | scrambling\<close> (line 191): JavaScript's bitwise or converts each operand
  to a 32-bit integer, that is, takes the number modulo \<open>2 ^ 32\<close>. The result is used as
  a condition: it counts as true when it is not 0.
\<close>

definition hasProblem :: "nat \<Rightarrow> nat \<Rightarrow> nat \<Rightarrow> 32 word" where
  "hasProblem e d s = (of_nat e OR of_nat d OR of_nat s)"

definition truthy :: "32 word \<Rightarrow> bool" where
  "truthy w = (w \<noteq> 0)"

definition resultMrkdwn :: "nat \<Rightarrow> nat \<Rightarrow> nat \<Rightarrow> string" where
  "resultMrkdwn e d s =
     (if e = 0 then ''E:0'' else ''*E:'' @ string_of_nat e @ ''*'') @ '' '' @
     (if d = 0 then ''D:0'' else ''*D:'' @ string_of_nat d @ ''*'') @ '' '' @
     (if s = 0 then ''S:0'' else ''*S:'' @ string_of_nat s @ ''*'')"

definition slack_texts :: "dropcheck \<Rightarrow> result \<Rightarrow> string list" where
  "slack_texts this dropResult =
     (let e = total_error dropResult;
          d = total_drop dropResult;
          s = total_scrambling dropResult;
          p = truthy (hasProblem e d s);
          texts = (if p then [''<!here>''] else []);
          resultHead = (if p then '':warning: '' else '':white_check_mark: '')
      in texts @ [resultHead @ resultMrkdwn e d s] @ [''>'' @ srcM2tsPath this])"

definition section_block :: "string \<Rightarrow> json" where
  "section_block t =
     JObject [(''type'', JString ''section''),
              (''text'', JObject [(''type'', JString ''mrkdwn''), (''text'', JString t)])]"

definition slack_payload :: "dropcheck \<Rightarrow> result \<Rightarrow> json" where
  "slack_payload this dropResult =
     (let p = truthy (hasProblem (total_error dropResult) (total_drop dropResult)
                        (total_scrambling dropResult));
          textHead = (if p then ''[!] '' else '''')
      in JObject [(''text'', JString (textHead @ srcM2tsPath this)),
                  (''blocks'', JArray (map section_block (slack_texts this dropResult)))])"

text \<open>
  \<open>https.request(url, options)\<close> with a string for the address parses it with
  \<open>new URL(url)\<close>, which throws \<open>ERR_INVALID_URL\<close> when the string does not begin with
  a scheme: an ASCII letter, then letters, digits, \<open>+\<close>, \<open>-\<close> or \<open>.\<close>, then a colon.
  With a scheme the request is taken to be created.
\<close>

definition ascii_alpha :: "char \<Rightarrow> bool" where
  "ascii_alpha c = (c \<in> set ''abcdefghijklmnopqrstuvwxyzABCDEFGHIJKLMNOPQRSTUVWXYZ'')"

definition scheme_char :: "char \<Rightarrow> bool" where
  "scheme_char c = (if ascii_alpha c then True else c \<in> set ''0123456789+-.'')"

fun scheme_rest :: "string \<Rightarrow> bool" where
  "scheme_rest [] = False"
| "scheme_rest (c # cs) =
     (if c = CHR '':'' then True else if scheme_char c then scheme_rest cs else False)"

definition has_scheme :: "string \<Rightarrow> bool" where
  "has_scheme url = (case url of [] \<Rightarrow> False | c # cs \<Rightarrow> if ascii_alpha c then scheme_rest cs else False)"

definition https_request :: "string \<Rightarrow> error + unit" where
  "https_request url = (if has_scheme url then Inr () else Inl (Error ''ERR_INVALID_URL''))"

text \<open>
  \<open>_postToSlack\<close> (lines 176-231): the payload is built, then the request is created,
  the serialised payload written (\<open>RequestWrite\<close> carries the value given to
  \<open>JSON.stringify\<close>), and the request ended. When \<open>https.request\<close> throws, nothing is
  written or ended and the exception leaves the method: the second component is the
  exception, if any.
\<close>

definition postToSlack :: "dropcheck \<Rightarrow> result \<Rightarrow> effect list \<times> error option" where
  "postToSlack this dropResult =
     (let payload = slack_payload this dropResult in
      case https_request SLACK_WEBHOOK_URL of
        Inl err \<Rightarrow> ([], Some err)
      | Inr u \<Rightarrow>
          ([HttpsRequest SLACK_WEBHOOK_URL ''POST'' [(''Content-Type'', ''application/json'')],
            RequestWrite payload,
            RequestEnd], None))"

subsection \<open>The run\<close>

text \<open>
  What a run meets outside the program once \<open>fs.statSync\<close> has returned the size of the
  input file (the case that it throws is \<open>run_on\<close>, below). The stream methods and the
  console are taken to succeed.
  \<^item> \<open>file_size\<close>: the size \<open>fs.statSync\<close> reports;
  \<^item> \<open>dirname\<close>: \<open>path.dirname\<close>;
  \<^item> \<open>awaited\<close>: how the promise of lines 64-83 settles. A promise settles once, with the
    first of: the \<open>end\<close> event of the read stream (resolve), its \<open>error\<close> event (reject),
    the rejection of \<open>checker.start\<close> (reject);
  \<^item> \<open>stop\<close>: the promise \<open>checker.stop()\<close> returns;
  \<^item> \<open>getResult\<close>: the promise \<open>checker.getResult()\<close> returns.
\<close>

datatype awaited = StreamEnd | ReadError error | StartRejected error

record env =
  file_size :: nat
  dirname :: "string \<Rightarrow> string"
  awaited :: awaited
  stop :: "unit settled"
  getResult :: "result settled"

text \<open>\<open>a || b\<close> on an optional string: \<open>undefined\<close> and the empty string are falsy.\<close>

definition or_else :: "string option \<Rightarrow> string \<Rightarrow> string" where
  "or_else a b = (case a of None \<Rightarrow> b | Some s \<Rightarrow> if s = '''' then b else s)"

text \<open>Lines 53-82: everything up to the \<open>await\<close>.\<close>

definition run_prologue :: "dropcheck \<Rightarrow> env \<Rightarrow> effect list" where
  "run_prologue this env =
     [Stdout CheckStarted, LoggerInitialize, CreateReadStream (srcM2tsPath this)] @
     snd (createTransformStream (file_size env)) @
     [Pipe,
      CheckerStart (or_else (dstLogDirPath this) (dirname env (srcM2tsPath this)))
        (srcM2tsPath this)]"

text \<open>
  The two handlers (lines 83-92 and 110-119) have the same body but for the message:
  print, await the stop with its rejection replaced by a resolved promise, release, exit.
  Were the awaited promise rejected, the handler would end there with the error uncaught.
\<close>

definition on_failure :: "line \<Rightarrow> error \<Rightarrow> env \<Rightarrow> effect list \<times> outcome" where
  "on_failure msg err env =
     (case catch (stop env) (\<lambda>e. Resolved ()) of
        Rejected e \<Rightarrow> ([Stderr msg, Stderr (Detail err), CheckerStop], Uncaught e)
      | Resolved u \<Rightarrow>
          ([Stderr msg, Stderr (Detail err), CheckerStop,
            TransformEnd, TransformUnpipe, ReadableClose], Exited 1))"

text \<open>
  Lines 95-119: the \<open>try\<close> block and its \<open>catch\<close>.

  When \<open>getResult\<close> rejects, the \<open>catch\<close> runs at once. When it resolves, line 100 calls
  \<open>checker.stop()\<close> with neither \<open>await\<close> nor \<open>catch\<close>; the streams are released and the
  result printed; with the webhook flag \<open>_postToSlack\<close> is called, and an exception it
  throws is caught by the \<open>catch\<close> of line 110.

  A rejection of the promise of line 100 is handled by nobody. It ends the run as
  \<open>Uncaught\<close> at the next point where the run gives up control: the \<open>await\<close> of line 114
  when the \<open>catch\<close> runs, the end of \<open>run\<close> otherwise.
\<close>

definition run_epilogue :: "dropcheck \<Rightarrow> env \<Rightarrow> effect list \<times> outcome" where
  "run_epilogue this env =
     (case getResult env of
        Rejected err \<Rightarrow>
          (case on_failure ReleaseFailed err env of (es, out) \<Rightarrow> (CheckerGetResult # es, out))
      | Resolved dropResult \<Rightarrow>
          (let released =
                 [CheckerGetResult, CheckerStop, TransformEnd, TransformUnpipe, ReadableClose,
                  Stdout CheckFinished] @ printDropResult dropResult;
               posted = (if isPostToSlack this then postToSlack this dropResult else ([], None))
           in case snd posted of
                None \<Rightarrow>
                  (released @ fst posted,
                   case stop env of Resolved u \<Rightarrow> Returned | Rejected e \<Rightarrow> Uncaught e)
              | Some err \<Rightarrow>
                  (case stop env of
                     Rejected e \<Rightarrow>
                       (released @ fst posted @
                        [Stderr ReleaseFailed, Stderr (Detail err), CheckerStop], Uncaught e)
                   | Resolved u \<Rightarrow>
                       (case on_failure ReleaseFailed err env of
                          (es, out) \<Rightarrow> (released @ fst posted @ es, out)))))"

definition run :: "dropcheck \<Rightarrow> env \<Rightarrow> effect list \<times> outcome" where
  "run this env =
     (case awaited env of
        StreamEnd \<Rightarrow>
          (case run_epilogue this env of (es, out) \<Rightarrow> (run_prologue this env @ es, out))
      | ReadError err \<Rightarrow>
          (case on_failure CheckFailed err env of (es, out) \<Rightarrow> (run_prologue this env @ es, out))
      | StartRejected err \<Rightarrow>
          (case on_failure CheckFailed err env of (es, out) \<Rightarrow> (run_prologue this env @ es, out)))"

text \<open>Line 234: \<open>new DropCheck().run()\<close>.\<close>

definition main :: "args \<Rightarrow> env \<Rightarrow> effect list \<times> outcome" where
  "main a env =
     (case constructor a of
        Inl (es, n) \<Rightarrow> (es, Exited n)
      | Inr this \<Rightarrow> run this env)"

text \<open>
  \<open>fs.statSync\<close> (line 126, reached from line 61) throws when the input file cannot be
  found or examined. That is after the read stream was created (line 60) and before the
  promise, its handlers and \<open>checker.start\<close>: the exception leaves \<open>run\<close>, whose promise
  rejects with nobody to handle it. Otherwise the run goes on as \<open>run\<close> describes.
\<close>

datatype input_file = StatFails error | StatOk env

fun run_on :: "dropcheck \<Rightarrow> input_file \<Rightarrow> effect list \<times> outcome" where
  "run_on this (StatFails err) =
     ([Stdout CheckStarted, LoggerInitialize, CreateReadStream (srcM2tsPath this)], Uncaught err)"
| "run_on this (StatOk env) = run this env"

text \<open>Selections from a trace: the calls of \<open>checker.start\<close>, the error channel, the output channel.\<close>

fun start_of :: "effect \<Rightarrow> (string \<times> string) option" where
  "start_of (CheckerStart d s) = Some (d, s)"
| "start_of _ = None"

definition starts :: "effect list \<Rightarrow> (string \<times> string) list" where
  "starts es = List.map_filter start_of es"

fun is_request :: "effect \<Rightarrow> bool" where
  "is_request (HttpsRequest u m h) = True"
| "is_request _ = False"

fun is_stderr :: "effect \<Rightarrow> bool" where
  "is_stderr (Stderr l) = True"
| "is_stderr _ = False"

fun is_stdout :: "effect \<Rightarrow> bool" where
  "is_stdout (Stdout l) = True"
| "is_stdout _ = False"

text \<open>A sample environment: a file of 376 bytes that is read to its end without failure.\<close>

definition sample_env :: env where
  "sample_env =
     \<lparr>file_size = 376, dirname = (\<lambda>p. ''/rec''), awaited = StreamEnd,
      stop = Resolved (), getResult = Resolved []\<rparr>"

section \<open>The stream integrity analyzer\<close>

text \<open>
  Modelled from the spec: the analyzer behind \<open>DropCheckerModel\<close>
  (\<open>./model/operator/recording/DropCheckerModel\<close>, imported by DropCheck.ts) is not among
  the source files; only its caller is. The definitions of this section follow section
  4.2 of the specification, rule by rule.
\<close>

text \<open>
  Modelled from the spec: the adaptation-field-control field (2 bits) says whether a frame
  carries a payload only, an adaptation field only, or both.
\<close>

datatype adaptation_field_control =
  Reserved | PayloadOnly | AdaptationOnly | AdaptationAndPayload

fun has_payload :: "adaptation_field_control \<Rightarrow> bool" where
  "has_payload PayloadOnly = True"
| "has_payload AdaptationAndPayload = True"
| "has_payload _ = False"

fun has_adaptation :: "adaptation_field_control \<Rightarrow> bool" where
  "has_adaptation AdaptationOnly = True"
| "has_adaptation AdaptationAndPayload = True"
| "has_adaptation _ = False"

text \<open>
  Modelled from the spec: the fields extracted from a frame: channel identifier (13 bits),
  transport-error-indicator bit, scrambling-control field (2 bits),
  adaptation-field-control field, continuity-counter field (4 bits), and the
  discontinuity indicator of the adaptation field.
\<close>

record frame =
  pid :: "13 word"
  transport_error_indicator :: bool
  scrambling_control :: "2 word"
  afc :: adaptation_field_control
  continuity_counter :: "4 word"
  discontinuity_indicator :: bool

text \<open>Modelled from the spec: the reserved null-packet identifier, all ones in 13 bits.\<close>

definition NULL_PID :: "13 word" where
  "NULL_PID = 8191"

text \<open>
  Modelled from the spec: ChannelIntegrityState, the last observed continuity counter
  (none before the first tracked frame) and the three cumulative counts.
\<close>

record channel =
  expected :: "4 word option"
  errors :: nat
  drops :: nat
  scramblings :: nat

definition new_channel :: channel where
  "new_channel = \<lparr>expected = None, errors = 0, drops = 0, scramblings = 0\<rparr>"

text \<open>
  Modelled from the spec: the discontinuity indicator is carried in the adaptation field
  when present.
\<close>

definition discontinuity :: "frame \<Rightarrow> bool" where
  "discontinuity f = (has_adaptation (afc f) \<and> discontinuity_indicator f)"

text \<open>
  Modelled from the spec: "if observed counter does not equal (expected + 1) mod 16,
  charge one drop per unit of gap modulo 16 (a duplicate packet, i.e. observed equals
  expected with no advance, is not charged as a drop)". Counters are 4-bit words, so the
  arithmetic is modulo 16.
\<close>

definition charge :: "4 word \<Rightarrow> 4 word \<Rightarrow> nat" where
  "charge e observed =
     (if observed = e + 1 then 0
      else if observed = e then 0
      else unat (observed - (e + 1)))"

text \<open>
  Modelled from the spec: continuity tracking of a payload-bearing frame. The first
  tracked frame seeds the counter; an asserted discontinuity indicator reseeds without a
  charge; otherwise the gap is charged; the expected counter is always reseeded.
\<close>

definition track :: "channel \<Rightarrow> frame \<Rightarrow> channel" where
  "track ch f =
     (case expected ch of
        None \<Rightarrow> ch\<lparr>expected := Some (continuity_counter f)\<rparr>
      | Some e \<Rightarrow>
          if discontinuity f then ch\<lparr>expected := Some (continuity_counter f)\<rparr>
          else ch\<lparr>expected := Some (continuity_counter f),
                  drops := drops ch + charge e (continuity_counter f)\<rparr>)"

text \<open>
  Modelled from the spec: the processing rules for one frame. Null-identifier frames are
  ignored entirely; a set transport-error-indicator counts an error and tracking still
  proceeds; non-zero scrambling-control counts a scrambling; the continuity counter is
  tracked only on payload-bearing frames.
\<close>

definition process_frame :: "(13 word \<rightharpoonup> channel) \<Rightarrow> frame \<Rightarrow> (13 word \<rightharpoonup> channel)" where
  "process_frame tbl f =
     (if pid f = NULL_PID then tbl
      else
        let ch0 = (case tbl (pid f) of None \<Rightarrow> new_channel | Some c \<Rightarrow> c);
            ch1 = (if transport_error_indicator f then ch0\<lparr>errors := errors ch0 + 1\<rparr> else ch0);
            ch2 = (if scrambling_control f \<noteq> 0 then ch1\<lparr>scramblings := scramblings ch1 + 1\<rparr> else ch1);
            ch3 = (if has_payload (afc f) then track ch2 f else ch2)
        in tbl(pid f \<mapsto> ch3))"

text \<open>Modelled from the spec: frames are consumed strictly in sequence.\<close>

definition analyze :: "frame list \<Rightarrow> (13 word \<rightharpoonup> channel)" where
  "analyze fs = foldl process_frame Map.empty fs"

text \<open>The drop count and the last observed counter of a channel in a result table.\<close>

definition drops_of :: "(13 word \<rightharpoonup> channel) \<Rightarrow> 13 word \<Rightarrow> nat" where
  "drops_of tbl p = (case tbl p of None \<Rightarrow> 0 | Some ch \<Rightarrow> drops ch)"

definition expected_of :: "(13 word \<rightharpoonup> channel) \<Rightarrow> 13 word \<Rightarrow> 4 word option" where
  "expected_of tbl p = (case tbl p of None \<Rightarrow> None | Some ch \<Rightarrow> expected ch)"

text \<open>
  A synthetic frame of channel \<open>p\<close> with counter \<open>c\<close>: payload only, no error
  indicator, not scrambled, no discontinuity indicator. A synthetic run: \<open>n\<close> such
  frames with counters \<open>c\<close>, \<open>c + 1\<close>, ... (modulo 16).
\<close>

definition payload_frame :: "13 word \<Rightarrow> 4 word \<Rightarrow> frame" where
  "payload_frame p c =
     \<lparr>pid = p, transport_error_indicator = False, scrambling_control = 0,
      afc = PayloadOnly, continuity_counter = c, discontinuity_indicator = False\<rparr>"

fun payload_frames :: "13 word \<Rightarrow> 4 word \<Rightarrow> nat \<Rightarrow> frame list" where
  "payload_frames p c 0 = []"
| "payload_frames p c (Suc n) = payload_frame p c # payload_frames p (c + 1) n"

text \<open>
  The frames of channel \<open>p\<close> in a stream from which exactly \<open>k\<close> consecutive frames of
  the channel are missing: \<open>m\<close> frames arrive, \<open>k\<close> are lost, \<open>n\<close> more arrive. The
  counter of the first frame after the gap is \<open>k + 1\<close> beyond the last before it.
\<close>

definition with_gap :: "13 word \<Rightarrow> 4 word \<Rightarrow> nat \<Rightarrow> nat \<Rightarrow> nat \<Rightarrow> frame list" where
  "with_gap p c m k n =
     payload_frames p c m @ payload_frames p (c + of_nat m + of_nat k) n"

text \<open>
  The payload-bearing frames of channel \<open>p\<close>, the ones whose counter is tracked: payload
  only, or adaptation field and payload.
\<close>

definition tracked :: "13 word \<Rightarrow> frame \<Rightarrow> bool" where
  "tracked p f = (pid f = p \<and> (afc f = PayloadOnly \<or> afc f = AdaptationAndPayload))"

text \<open>
  The counters of a channel from which exactly \<open>k\<close> consecutive payload-bearing frames
  are missing: \<open>m\<close> consecutive counters from \<open>c\<close>, then \<open>n\<close> consecutive counters that
  begin \<open>k + 1\<close> beyond the last of them (modulo 16).
\<close>

definition gap_counters :: "4 word \<Rightarrow> nat \<Rightarrow> nat \<Rightarrow> nat \<Rightarrow> 4 word list" where
  "gap_counters c m k n =
     map (\<lambda>i. c + of_nat i) [0..<m] @ map (\<lambda>i. c + of_nat m + of_nat k + of_nat i) [0..<n]"

text \<open>
  The drops charged along a list of observed counters of one channel, from the last
  observed counter \<open>e\<close> (none before the first frame), when no discontinuity is asserted.
\<close>

fun count_drops :: "4 word option \<Rightarrow> 4 word list \<Rightarrow> nat" where
  "count_drops e [] = 0"
| "count_drops None (c # cs) = count_drops (Some c) cs"
| "count_drops (Some e) (c # cs) = charge e c + count_drops (Some c) cs"

text \<open>
  A sample stream. Channel 256 sends counters 14, 15, 0, loses two frames, and sends 3
  and 4; its frames carry an error indicator, scrambling and adaptation fields here and
  there, a frame without payload lies between them, and so does a frame of channel 17.
\<close>

definition sample_frames :: "frame list" where
  "sample_frames =
     [(payload_frame 256 14)\<lparr>transport_error_indicator := True\<rparr>,
      payload_frame 17 5,
      (payload_frame 256 15)\<lparr>afc := AdaptationAndPayload, scrambling_control := 2\<rparr>,
      (payload_frame 256 15)\<lparr>afc := AdaptationOnly, discontinuity_indicator := True\<rparr>,
      payload_frame 256 0,
      (payload_frame 256 3)\<lparr>afc := AdaptationAndPayload\<rparr>,
      (payload_frame 256 4)\<lparr>scrambling_control := 1, transport_error_indicator := True\<rparr>]"

section \<open>Properties of the event bus\<close>

lemmas event_name_defs =
  START_PREP_RRECORDING_EVENT_def CANCEL_PREP_RRECORDING_EVENT_def
  PREP_RECORDING_FAILED_EVENT_def START_RECORDING_EVENT_def
  RECORDING_FAILED_EVENT_def RECORDING_RETRY_OVER_EVENT_def
  FINISH_RECORDING_EVENT_def EVENT_RELAY_EVENT_def

lemmas set_defs =
  setStartPrepRecording_def setCancelPrepRecording_def setPrepRecordingFailed_def
  setStartRecording_def setRecordingFailed_def setRecordingRetryOver_def
  setFinishRecording_def setEventRelay_def

lemmas emit_defs =
  emitStartPrepRecording_def emitCancelPrepRecording_def emitPrepRecordingFailed_def
  emitStartRecording_def emitRecordingFailed_def emitRecordingRetryOver_def
  emitFinishRecording_def emitEventRelay_def

lemma name_of_inj: "name_of k = name_of k' \<longleftrightarrow> k = k'"
  by (cases k; cases k'; simp add: event_name_defs)

lemma register_eq: "register em (k, cb) = em @ [(name_of k, wrapper (arity k) cb)]"
  by (cases k) (simp_all add: set_defs emitter_on_def)

lemma foldl_register:
  "foldl register em regs =
     em @ map (\<lambda>p. (name_of (fst p), wrapper (arity (fst p)) (snd p))) regs"
proof (induction regs arbitrary: em)
  case Nil
  show ?case by simp
next
  case (Cons p regs)
  obtain k cb where p: "p = (k, cb)" by (cases p)
  show ?case by (simp add: Cons.IH p register_eq)
qed

lemma bus_listeners:
  "map snd (filter (\<lambda>p. fst p = name_of k) (bus regs)) =
     map (wrapper (arity k)) (registered_for k regs)"
  unfolding bus_def foldl_register registered_for_def
  by (induction regs) (auto simp: name_of_inj)

lemma wrapper_step:
  "wrapper n cb args w = (Inr (), after_calls n [cb] args w)"
  by (cases "body cb (take n args)") (simp_all add: wrapper_def after_calls_def Let_def)

lemma after_calls_Cons:
  "after_calls n cbs args (after_calls n [cb] args w) = after_calls n (cb # cbs) args w"
  by (simp add: after_calls_def)

lemma call_wrappers:
  "call_listeners (map (wrapper n) cbs) args w = (Inr (), after_calls n cbs args w)"
proof (induction cbs arbitrary: w)
  case Nil
  show ?case by (simp add: after_calls_def)
next
  case (Cons cb cbs)
  show ?case
    using wrapper_step [of n cb args w]
    by (simp add: Cons.IH after_calls_Cons)
qed

lemma args_arity: "take (arity (kind_of ev)) (args_of ev) = args_of ev"
  by (cases ev) simp_all

lemma emit_eq: "emit em ev = emitter_emit em (name_of (kind_of ev)) (args_of ev)"
  by (cases ev) (simp_all add: emit_defs)

lemma emit_bus:
  "emit (bus regs) ev w =
     (Inr (), after_calls (arity (kind_of ev)) (registered_for (kind_of ev) regs) (args_of ev) w)"
  by (simp add: emit_eq emitter_emit_def bus_listeners call_wrappers)

lemma new_calls_after:
  "new_calls w (after_calls n cbs args w) = map (\<lambda>cb. (label cb, take n args)) cbs"
  by (simp add: new_calls_def after_calls_def)

lemma new_calls_emit:
  "new_calls w (snd (emit (bus regs) ev w)) =
     map (\<lambda>cb. (label cb, args_of ev)) (registered_for (kind_of ev) regs)"
  by (simp add: emit_bus new_calls_after args_arity)

lemma count_list_labelled:
  "count_list (map (\<lambda>cb. (label cb, a)) cbs) (l, a) = count_list (map label cbs) l"
  by (induction cbs) simp_all

lemma registered_for_filter:
  "registered_for k (filter (\<lambda>p. fst p = k) regs) = registered_for k regs"
  by (simp add: registered_for_def)

text \<open>
  Claim C1. Whatever the callbacks registered on the bus do when called (return, throw, or
  return a promise that rejects), the emission of any event of any kind returns normally
  to the emitter (nothing is propagated); every callback registered for the kind of the
  event is invoked with the emitted arguments, the failing ones and the ones after them
  included; what was thrown is in the error log when the emission returns, and what was
  rejected is in the error log once the microtask queue has run.
\<close>

theorem listener_failure_isolated:
  "fst (emit (bus regs) ev w) = Inr () \<and>
   new_calls w (snd (emit (bus regs) ev w)) =
     map (\<lambda>cb. (label cb, args_of ev)) (registered_for (kind_of ev) regs) \<and>
   errlog (snd (emit (bus regs) ev w)) =
     errlog w @ concat (map (\<lambda>cb. thrown_of (body cb (args_of ev)))
                          (registered_for (kind_of ev) regs)) \<and>
   errlog (run_microtasks (snd (emit (bus regs) ev w))) =
     errlog (snd (emit (bus regs) ev w)) @ microtasks w @
     concat (map (\<lambda>cb. rejected_of (body cb (args_of ev)))
               (registered_for (kind_of ev) regs)) \<and>
   microtasks (run_microtasks (snd (emit (bus regs) ev w))) = []"
proof -
  let ?cbs = "registered_for (kind_of ev) regs"
  let ?w' = "after_calls (arity (kind_of ev)) ?cbs (args_of ev) w"
  have e: "emit (bus regs) ev w = (Inr (), ?w')"
    by (rule emit_bus)
  have r: "fst (emit (bus regs) ev w) = Inr ()"
    by (simp add: e)
  have c: "new_calls w (snd (emit (bus regs) ev w)) = map (\<lambda>cb. (label cb, args_of ev)) ?cbs"
    by (rule new_calls_emit)
  have l: "errlog ?w' = errlog w @ concat (map (\<lambda>cb. thrown_of (body cb (args_of ev))) ?cbs)"
    by (simp add: after_calls_def args_arity)
  have m: "errlog (run_microtasks ?w') = errlog ?w' @ microtasks w @
      concat (map (\<lambda>cb. rejected_of (body cb (args_of ev))) ?cbs)"
    by (simp add: after_calls_def args_arity run_microtasks_def)
  have q: "microtasks (run_microtasks ?w') = []"
    by (simp add: run_microtasks_def)
  from r c l m q show ?thesis
    by (simp add: e)
qed

text \<open>
  Claim C7. In one emission the callbacks are invoked in the order in which they were
  registered for the kind of the event: the labels of the invocations, in order, are the
  labels of the registrations for that kind, in order. A callback registered later for
  the kind comes after all those registered before it.
\<close>

theorem dispatch_in_registration_order:
  "map fst (new_calls w (snd (emit (bus regs) ev w))) =
     map label (registered_for (kind_of ev) regs) \<and>
   registered_for k (regs @ [(k, cb)]) = registered_for k regs @ [cb] \<and>
   bus (regs @ [(k, cb)]) = register (bus regs) (k, cb)"
proof -
  have o: "map fst (new_calls w (snd (emit (bus regs) ev w))) =
      map label (registered_for (kind_of ev) regs)"
    by (simp add: new_calls_emit comp_def)
  have a: "registered_for k (regs @ [(k, cb)]) = registered_for k regs @ [cb]"
    by (simp add: registered_for_def)
  have b: "bus (regs @ [(k, cb)]) = register (bus regs) (k, cb)"
    by (simp add: bus_def)
  from o a b show ?thesis by blast
qed

text \<open>
  Claim C10. The eight event names are pairwise distinct. In an emission, a callback is
  invoked as many times as it was registered for the kind of the event; every invocation
  receives exactly the emitted arguments; and the registrations for the other kinds
  contribute nothing: the emission is the same as on a bus holding only the registrations
  for the kind of the event.
\<close>

theorem events_distinct_and_exact:
  "distinct [START_PREP_RRECORDING_EVENT, CANCEL_PREP_RRECORDING_EVENT,
             PREP_RECORDING_FAILED_EVENT, START_RECORDING_EVENT, RECORDING_FAILED_EVENT,
             RECORDING_RETRY_OVER_EVENT, FINISH_RECORDING_EVENT, EVENT_RELAY_EVENT] \<and>
   count_list (new_calls w (snd (emit (bus regs) ev w))) (l, args_of ev) =
     count_list (map label (registered_for (kind_of ev) regs)) l \<and>
   map snd (new_calls w (snd (emit (bus regs) ev w))) =
     replicate (length (registered_for (kind_of ev) regs)) (args_of ev) \<and>
   emit (bus regs) ev w = emit (bus (filter (\<lambda>p. fst p = kind_of ev) regs)) ev w"
proof -
  have d: "distinct [START_PREP_RRECORDING_EVENT, CANCEL_PREP_RRECORDING_EVENT,
             PREP_RECORDING_FAILED_EVENT, START_RECORDING_EVENT, RECORDING_FAILED_EVENT,
             RECORDING_RETRY_OVER_EVENT, FINISH_RECORDING_EVENT, EVENT_RELAY_EVENT]"
    by (simp add: event_name_defs)
  have c: "count_list (new_calls w (snd (emit (bus regs) ev w))) (l, args_of ev) =
     count_list (map label (registered_for (kind_of ev) regs)) l"
    by (simp add: new_calls_emit count_list_labelled)
  have a: "map snd (new_calls w (snd (emit (bus regs) ev w))) =
     replicate (length (registered_for (kind_of ev) regs)) (args_of ev)"
    by (simp add: new_calls_emit comp_def map_replicate_const)
  have f: "emit (bus regs) ev w = emit (bus (filter (\<lambda>p. fst p = kind_of ev) regs)) ev w"
    by (simp add: emit_bus registered_for_filter)
  from d c a f show ?thesis by blast
qed

section \<open>Properties of the command-line tool\<close>

lemma catch_swallow: "catch p (\<lambda>e. Resolved ()) = Resolved ()"
  by (cases p) simp_all

lemma on_failure_eq:
  "on_failure msg err env =
     ([Stderr msg, Stderr (Detail err), CheckerStop, TransformEnd, TransformUnpipe, ReadableClose],
      Exited 1)"
  by (simp add: on_failure_def catch_swallow)

text \<open>The address in the source has no scheme: the request is never created.\<close>

lemma webhook_url_refused: "https_request SLACK_WEBHOOK_URL = Inl (Error ''ERR_INVALID_URL'')"
  by (simp add: https_request_def SLACK_WEBHOOK_URL_def has_scheme_def ascii_alpha_def
      scheme_char_def)

lemma postToSlack_throws: "postToSlack dc r = ([], Some (Error ''ERR_INVALID_URL''))"
  by (simp add: postToSlack_def webhook_url_refused Let_def)

lemma starts_append: "starts (xs @ ys) = starts xs @ starts ys"
  by (simp add: starts_def map_filter_def)

lemma starts_prologue:
  "starts (run_prologue dc env) =
     [(or_else (dstLogDirPath dc) (dirname env (srcM2tsPath dc)), srcM2tsPath dc)]"
  by (simp add: starts_def map_filter_def run_prologue_def createTransformStream_def)

lemma stderr_prologue: "filter is_stderr (run_prologue dc env) = []"
  by (simp add: run_prologue_def createTransformStream_def)

lemma stdout_prologue: "filter is_stdout (run_prologue dc env) = [Stdout CheckStarted]"
  by (simp add: run_prologue_def createTransformStream_def)

lemma starts_epilogue: "starts (fst (run_epilogue dc env)) = []"
  by (cases "getResult env"; cases "stop env"; cases "isPostToSlack dc")
     (simp_all add: starts_def map_filter_def run_epilogue_def on_failure_eq
        printDropResult_def postToSlack_throws Let_def)

lemma run_cases:
  "run dc env =
     (case awaited env of
        StreamEnd \<Rightarrow>
          (run_prologue dc env @ fst (run_epilogue dc env), snd (run_epilogue dc env))
      | ReadError err \<Rightarrow>
          (run_prologue dc env @ fst (on_failure CheckFailed err env), Exited 1)
      | StartRejected err \<Rightarrow>
          (run_prologue dc env @ fst (on_failure CheckFailed err env), Exited 1))"
  by (cases "awaited env") (simp_all add: run_def on_failure_eq split: prod.splits)

lemma starts_run:
  "starts (fst (run dc env)) =
     [(or_else (dstLogDirPath dc) (dirname env (srcM2tsPath dc)), srcM2tsPath dc)]"
  by (cases "awaited env")
     (simp_all add: run_cases starts_append starts_prologue starts_epilogue on_failure_eq
        starts_def [of "[_, _, _, _, _, _]"] map_filter_def)

lemma main_accept:
  "arg_input a = Some p \<Longrightarrow> p \<noteq> [] \<Longrightarrow>
   main a env =
     run \<lparr>srcM2tsPath = p, dstLogDirPath = arg_output a, isPostToSlack = arg_slack a\<rparr> env"
  by (simp add: main_def constructor_def)

lemma run_read_error:
  "awaited env = ReadError e \<Longrightarrow>
   run dc env =
     (run_prologue dc env @
      [Stderr CheckFailed, Stderr (Detail e), CheckerStop, TransformEnd, TransformUnpipe,
       ReadableClose], Exited 1)"
  by (simp add: run_cases on_failure_eq)

lemma run_start_rejected:
  "awaited env = StartRejected e \<Longrightarrow>
   run dc env =
     (run_prologue dc env @
      [Stderr CheckFailed, Stderr (Detail e), CheckerStop, TransformEnd, TransformUnpipe,
       ReadableClose], Exited 1)"
  by (simp add: run_cases on_failure_eq)

lemma run_result_rejected:
  "awaited env = StreamEnd \<Longrightarrow> getResult env = Rejected e \<Longrightarrow>
   run dc env =
     (run_prologue dc env @
      [CheckerGetResult, Stderr ReleaseFailed, Stderr (Detail e), CheckerStop, TransformEnd,
       TransformUnpipe, ReadableClose], Exited 1)"
  by (simp add: run_cases run_epilogue_def on_failure_eq)

text \<open>
  The success path without the webhook: the run returns when the promise of the
  unawaited \<open>checker.stop()\<close> resolves, and is left with an unhandled rejection when it
  rejects.
\<close>

lemma run_success:
  "awaited env = StreamEnd \<Longrightarrow> getResult env = Resolved r \<Longrightarrow> \<not> isPostToSlack dc \<Longrightarrow>
   run dc env =
     (run_prologue dc env @
      [CheckerGetResult, CheckerStop, TransformEnd, TransformUnpipe, ReadableClose,
       Stdout CheckFinished] @ printDropResult r,
      case stop env of Resolved u \<Rightarrow> Returned | Rejected e \<Rightarrow> Uncaught e)"
  by (simp add: run_cases run_epilogue_def Let_def)

text \<open>
  The success path with the webhook: after the result was printed the creation of the
  request throws, and the \<open>catch\<close> of line 110 ends the process with code 1.
\<close>

lemma run_webhook:
  "awaited env = StreamEnd \<Longrightarrow> getResult env = Resolved r \<Longrightarrow> isPostToSlack dc \<Longrightarrow>
   stop env = Resolved () \<Longrightarrow>
   run dc env =
     (run_prologue dc env @
      [CheckerGetResult, CheckerStop, TransformEnd, TransformUnpipe, ReadableClose,
       Stdout CheckFinished] @ printDropResult r @
      [Stderr ReleaseFailed, Stderr (Detail (Error ''ERR_INVALID_URL'')), CheckerStop,
       TransformEnd, TransformUnpipe, ReadableClose],
      Exited 1)"
  by (simp add: run_cases run_epilogue_def postToSlack_throws on_failure_eq Let_def)

lemma sample_prologue:
  "run_prologue \<lparr>srcM2tsPath = ''a.m2ts'', dstLogDirPath = None, isPostToSlack = b\<rparr>
     (sample_env\<lparr>getResult := g\<rparr>) =
     [Stdout CheckStarted, LoggerInitialize, CreateReadStream ''a.m2ts'', ProgressStart 376 0,
      Pipe, CheckerStart ''/rec'' ''a.m2ts'']"
  by (simp add: sample_env_def run_prologue_def createTransformStream_def or_else_def)

text \<open>
  The older revision: a missing input path ends the process with code 1; any third
  argument, the empty string included, is taken as the input path.
\<close>

lemma constructor_positional_cases:
  "constructor_positional [node, script] = Inl ([Stderr UsagePositional], 1) \<and>
   constructor_positional [node, script, p] =
     Inr \<lparr>srcM2tsPath = p, dstLogDirPath = None, isPostToSlack = False\<rparr> \<and>
   constructor_positional [node, script, p, d] =
     Inr \<lparr>srcM2tsPath = p, dstLogDirPath = Some d, isPostToSlack = False\<rparr>"
  by (simp add: constructor_positional_def)



text \<open>
  Claim C9. When the output directory is omitted or empty, the checker is started, once,
  with the directory of the input file (\<open>path.dirname\<close> of the input path) as its target
  directory; when a non-empty output directory is given, with exactly that directory.
\<close>

theorem default_output_directory:
  "(arg_input a = Some p \<and> p \<noteq> [] \<and> (arg_output a = None \<or> arg_output a = Some []) \<longrightarrow>
      starts (fst (main a env)) = [(dirname env p, p)]) \<and>
   (arg_input a = Some p \<and> p \<noteq> [] \<and> arg_output a = Some d \<and> d \<noteq> [] \<longrightarrow>
      starts (fst (main a env)) = [(d, p)])"
  by (auto simp: main_accept starts_run or_else_def)

theorem default_output_directory_witness:
  "starts (fst (main \<lparr>arg_input = Some ''/rec/a.m2ts'', arg_output = None, arg_slack = False\<rparr>
                  sample_env)) = [(''/rec'', ''/rec/a.m2ts'')] \<and>
   starts (fst (main \<lparr>arg_input = Some ''/rec/a.m2ts'', arg_output = Some [], arg_slack = False\<rparr>
                  sample_env)) = [(''/rec'', ''/rec/a.m2ts'')] \<and>
   starts (fst (main \<lparr>arg_input = Some ''/rec/a.m2ts'', arg_output = Some ''/out'',
                       arg_slack = False\<rparr> sample_env)) = [(''/out'', ''/rec/a.m2ts'')]"
  using
    default_output_directory [where a = "\<lparr>arg_input = Some ''/rec/a.m2ts'', arg_output = None,
      arg_slack = False\<rparr>" and p = "''/rec/a.m2ts''" and d = "''/out''" and env = sample_env]
    default_output_directory [where a = "\<lparr>arg_input = Some ''/rec/a.m2ts'', arg_output = Some [],
      arg_slack = False\<rparr>" and p = "''/rec/a.m2ts''" and d = "''/out''" and env = sample_env]
    default_output_directory [where a = "\<lparr>arg_input = Some ''/rec/a.m2ts'',
      arg_output = Some ''/out'', arg_slack = False\<rparr>" and p = "''/rec/a.m2ts''"
      and d = "''/out''" and env = sample_env]
  by (simp add: sample_env_def)

text \<open>
  The paths of the run that end as the program decides, for a run on an input file that
  \<open>fs.statSync\<close> has found:
  \<^item> when the stream is read to its end, the result is retrieved, the promise of the
    unawaited \<open>checker.stop()\<close> resolves and no webhook post is requested, the result is
    printed, nothing is written to the error channel and the process ends with code 0;
  \<^item> when, in such a run, the webhook post is requested and throws, the process exits
    with code 1 after the diagnostic of line 111 and the error;
  \<^item> when the read stream fails or the start of the checker is rejected (whichever
    settles the awaited promise), or the retrieval of the result is rejected, the
    process exits with code 1 after the diagnostic and the error.
\<close>

lemma exit_codes_on_handled_paths:
  "(awaited env = StreamEnd \<and> getResult env = Resolved r \<and> stop env = Resolved () \<and>
    \<not> isPostToSlack dc \<longrightarrow>
      exit_code (snd (run dc env)) = Some 0 \<and>
      filter is_stderr (fst (run dc env)) = [] \<and>
      filter is_stdout (fst (run dc env)) =
        [Stdout CheckStarted, Stdout CheckFinished] @ printDropResult r) \<and>
   (awaited env = StreamEnd \<and> getResult env = Resolved r \<and> stop env = Resolved () \<and>
    isPostToSlack dc \<and> snd (postToSlack dc r) = Some e \<longrightarrow>
      exit_code (snd (run dc env)) = Some 1 \<and>
      filter is_stderr (fst (run dc env)) = [Stderr ReleaseFailed, Stderr (Detail e)]) \<and>
   (awaited env = ReadError e \<longrightarrow>
      exit_code (snd (run dc env)) = Some 1 \<and>
      filter is_stderr (fst (run dc env)) = [Stderr CheckFailed, Stderr (Detail e)]) \<and>
   (awaited env = StartRejected e \<longrightarrow>
      exit_code (snd (run dc env)) = Some 1 \<and>
      filter is_stderr (fst (run dc env)) = [Stderr CheckFailed, Stderr (Detail e)]) \<and>
   (awaited env = StreamEnd \<and> getResult env = Rejected e \<longrightarrow>
      exit_code (snd (run dc env)) = Some 1 \<and>
      filter is_stderr (fst (run dc env)) = [Stderr ReleaseFailed, Stderr (Detail e)])"
proof -
  have ok: "awaited env = StreamEnd \<and> getResult env = Resolved r \<and> stop env = Resolved () \<and>
    \<not> isPostToSlack dc \<longrightarrow>
      exit_code (snd (run dc env)) = Some 0 \<and>
      filter is_stderr (fst (run dc env)) = [] \<and>
      filter is_stdout (fst (run dc env)) =
        [Stdout CheckStarted, Stdout CheckFinished] @ printDropResult r"
    by (simp add: run_success stderr_prologue stdout_prologue printDropResult_def)
  have wh: "awaited env = StreamEnd \<and> getResult env = Resolved r \<and> stop env = Resolved () \<and>
    isPostToSlack dc \<and> snd (postToSlack dc r) = Some e \<longrightarrow>
      exit_code (snd (run dc env)) = Some 1 \<and>
      filter is_stderr (fst (run dc env)) = [Stderr ReleaseFailed, Stderr (Detail e)]"
    by (simp add: run_webhook stderr_prologue printDropResult_def postToSlack_throws)
  have rd: "awaited env = ReadError e \<longrightarrow>
      exit_code (snd (run dc env)) = Some 1 \<and>
      filter is_stderr (fst (run dc env)) = [Stderr CheckFailed, Stderr (Detail e)]"
    by (simp add: run_read_error stderr_prologue)
  have st: "awaited env = StartRejected e \<longrightarrow>
      exit_code (snd (run dc env)) = Some 1 \<and>
      filter is_stderr (fst (run dc env)) = [Stderr CheckFailed, Stderr (Detail e)]"
    by (simp add: run_start_rejected stderr_prologue)
  have gr: "awaited env = StreamEnd \<and> getResult env = Rejected e \<longrightarrow>
      exit_code (snd (run dc env)) = Some 1 \<and>
      filter is_stderr (fst (run dc env)) = [Stderr ReleaseFailed, Stderr (Detail e)]"
    by (simp add: run_result_rejected stderr_prologue)
  from ok wh rd st gr show ?thesis by blast
qed

text \<open>
  Claim C3 at three runs in which the code departs from it. With the webhook flag, on a
  file that is read to its end and whose result is retrieved and printed, the three
  totals are on the output channel and then the process exits with code 1, not 0: the
  creation of the request throws on the address in the source. Without the flag, when
  the promise of the unawaited \<open>checker.stop()\<close> of line 100 rejects, the run does not
  end of its own doing: the rejection is left unhandled. And when the input file cannot
  be found, no diagnostic is written and \<open>process.exit\<close> is not called.
\<close>

theorem exit_codes_at_unhandled_failures:
  "exit_code (snd (run \<lparr>srcM2tsPath = ''a.m2ts'', dstLogDirPath = None, isPostToSlack = True\<rparr>
      sample_env)) = Some 1 \<and>
   filter is_stdout (fst (run \<lparr>srcM2tsPath = ''a.m2ts'', dstLogDirPath = None,
      isPostToSlack = True\<rparr> sample_env)) =
     [Stdout CheckStarted, Stdout CheckFinished, Stdout (Text ''error      : 0''),
      Stdout (Text ''drop       : 0''), Stdout (Text ''scrambling : 0'')] \<and>
   snd (run \<lparr>srcM2tsPath = ''a.m2ts'', dstLogDirPath = None, isPostToSlack = False\<rparr>
      (sample_env\<lparr>stop := Rejected (Error ''flush'')\<rparr>)) = Uncaught (Error ''flush'') \<and>
   run_on \<lparr>srcM2tsPath = ''missing.m2ts'', dstLogDirPath = None, isPostToSlack = False\<rparr>
      (StatFails (Error ''ENOENT'')) =
     ([Stdout CheckStarted, LoggerInitialize, CreateReadStream ''missing.m2ts''],
      Uncaught (Error ''ENOENT''))"
proof -
  let ?ds = "\<lparr>srcM2tsPath = ''a.m2ts'', dstLogDirPath = None, isPostToSlack = True\<rparr>"
  let ?dc = "\<lparr>srcM2tsPath = ''a.m2ts'', dstLogDirPath = None, isPostToSlack = False\<rparr>"
  have r: "run ?ds sample_env =
     (run_prologue ?ds sample_env @
      [CheckerGetResult, CheckerStop, TransformEnd, TransformUnpipe, ReadableClose,
       Stdout CheckFinished] @ printDropResult [] @
      [Stderr ReleaseFailed, Stderr (Detail (Error ''ERR_INVALID_URL'')), CheckerStop,
       TransformEnd, TransformUnpipe, ReadableClose],
      Exited 1)"
    by (rule run_webhook) (simp_all add: sample_env_def)
  have p: "printDropResult [] =
     [Stdout (Text ''error      : 0''), Stdout (Text ''drop       : 0''),
      Stdout (Text ''scrambling : 0'')]"
    by (simp add: printDropResult_def total_error_def total_drop_def total_scrambling_def
        string_of_nat.simps digit_char_def)
  have a: "exit_code (snd (run ?ds sample_env)) = Some 1"
    by (simp add: r)
  have b: "filter is_stdout (fst (run ?ds sample_env)) =
     [Stdout CheckStarted, Stdout CheckFinished, Stdout (Text ''error      : 0''),
      Stdout (Text ''drop       : 0''), Stdout (Text ''scrambling : 0'')]"
    unfolding r p by (simp add: stdout_prologue)
  let ?e = "sample_env\<lparr>stop := Rejected (Error ''flush'')\<rparr>"
  have "run ?dc ?e =
     (run_prologue ?dc ?e @
      [CheckerGetResult, CheckerStop, TransformEnd, TransformUnpipe, ReadableClose,
       Stdout CheckFinished] @ printDropResult [],
      case stop ?e of Resolved u \<Rightarrow> Returned | Rejected e \<Rightarrow> Uncaught e)"
    by (rule run_success) (simp_all add: sample_env_def)
  then have c: "snd (run ?dc ?e) = Uncaught (Error ''flush'')"
    by simp
  have d: "run_on \<lparr>srcM2tsPath = ''missing.m2ts'', dstLogDirPath = None, isPostToSlack = False\<rparr>
      (StatFails (Error ''ENOENT'')) =
     ([Stdout CheckStarted, LoggerInitialize, CreateReadStream ''missing.m2ts''],
      Uncaught (Error ''ENOENT''))"
    by simp
  from a b c d show ?thesis by blast
qed

text \<open>
  What the two handlers do (lines 83-92 and 110-119), in order and after what the run
  did before the failure: print the diagnostic, print the error, stop the checker, end
  and unpipe the transform stream, close the read stream; and only then exit, with code
  1. On these paths that is so whether the promise of \<open>checker.stop()\<close> resolves or
  rejects.
\<close>

lemma handlers_release_order:
  "(awaited env = ReadError e \<or> awaited env = StartRejected e \<longrightarrow>
      run dc env =
        (run_prologue dc env @
         [Stderr CheckFailed, Stderr (Detail e), CheckerStop, TransformEnd, TransformUnpipe,
          ReadableClose], Exited 1)) \<and>
   (awaited env = StreamEnd \<and> getResult env = Rejected e \<longrightarrow>
      run dc env =
        (run_prologue dc env @
         [CheckerGetResult, Stderr ReleaseFailed, Stderr (Detail e), CheckerStop, TransformEnd,
          TransformUnpipe, ReadableClose], Exited 1))"
  using run_read_error run_start_rejected run_result_rejected by blast

text \<open>
  Claim C5 at an input file that does not exist: \<open>fs.statSync\<close> throws before the
  promise and its handlers exist. The run has printed its first line and created the
  read stream; it prints no diagnostic, does not stop the checker, does not close the
  read stream, and does not call \<open>process.exit\<close>: the error is left unhandled.
\<close>

theorem missing_input_not_handled:
  "run_on \<lparr>srcM2tsPath = ''missing.m2ts'', dstLogDirPath = None, isPostToSlack = False\<rparr>
      (StatFails (Error ''ENOENT'')) =
     ([Stdout CheckStarted, LoggerInitialize, CreateReadStream ''missing.m2ts''],
      Uncaught (Error ''ENOENT'')) \<and>
   filter is_stderr (fst (run_on \<lparr>srcM2tsPath = ''missing.m2ts'', dstLogDirPath = None,
      isPostToSlack = False\<rparr> (StatFails (Error ''ENOENT'')))) = [] \<and>
   CheckerStop \<notin> set (fst (run_on \<lparr>srcM2tsPath = ''missing.m2ts'', dstLogDirPath = None,
      isPostToSlack = False\<rparr> (StatFails (Error ''ENOENT'')))) \<and>
   ReadableClose \<notin> set (fst (run_on \<lparr>srcM2tsPath = ''missing.m2ts'', dstLogDirPath = None,
      isPostToSlack = False\<rparr> (StatFails (Error ''ENOENT'')))) \<and>
   exit_code (snd (run_on \<lparr>srcM2tsPath = ''missing.m2ts'', dstLogDirPath = None,
      isPostToSlack = False\<rparr> (StatFails (Error ''ENOENT'')))) = None"
  by simp

subsection \<open>Progress reporting\<close>

lemma div_step_full: "Suc N mod 100 = 0 \<Longrightarrow> Suc N div 100 = Suc (N div 100)"
  by (simp add: div_Suc)

lemma div_step_part: "Suc N mod 100 \<noteq> 0 \<Longrightarrow> Suc N div 100 = N div 100"
  by (simp add: div_Suc)

lemma hundred_full: "Suc N mod 100 = 0 \<Longrightarrow> 100 * Suc (N div 100) = Suc N"
  using mult_div_mod_eq [of 100 "Suc N"] by (simp add: div_step_full)

lemma count_full: "Suc N mod 100 = 0 \<longleftrightarrow> N mod 100 + 1 = 100"
  by (simp add: mod_Suc)

lemma count_part: "Suc N mod 100 \<noteq> 0 \<Longrightarrow> N mod 100 + 1 = Suc N mod 100"
  by (simp add: mod_Suc split: if_splits)

lemma transform_all_snoc:
  "transform_all st (cs @ [x]) =
     (case transform_all st cs of
        (st', es) \<Rightarrow> (case transform st' x of (st'', es') \<Rightarrow> (st'', es @ es')))"
proof (induction cs arbitrary: st)
  case Nil
  show ?case by (simp split: prod.splits)
next
  case (Cons c cs)
  show ?case by (simp add: Cons.IH split: prod.splits)
qed

lemma bytes_upto_snoc:
  "bytes_upto (cs @ [x]) (Suc (length cs)) = bytes_upto cs (length cs) + length x"
  by (simp add: bytes_upto_def)

lemma transform_full:
  "count st + 1 = 100 \<Longrightarrow>
   transform st x =
     (\<lparr>bytesRead = bytesRead st + length x, count = 0\<rparr>,
      [ProgressUpdate (bytesRead st + length x), Push x])"
  by (simp add: transform_def Let_def)

lemma transform_part:
  "count st + 1 \<noteq> 100 \<Longrightarrow>
   transform st x = (\<lparr>bytesRead = bytesRead st + length x, count = count st + 1\<rparr>, [Push x])"
  by (simp add: transform_def Let_def)

lemma state_after:
  "fst (transform_all \<lparr>bytesRead = 0, count = 0\<rparr> cs) =
     \<lparr>bytesRead = bytes_upto cs (length cs), count = length cs mod 100\<rparr>"
proof (induction cs rule: rev_induct)
  case Nil
  show ?case by (simp add: bytes_upto_def)
next
  case (snoc x cs)
  obtain st es where t: "transform_all \<lparr>bytesRead = 0, count = 0\<rparr> cs = (st, es)"
    by (cases "transform_all \<lparr>bytesRead = 0, count = 0\<rparr> cs")
  with snoc.IH have b: "bytesRead st = bytes_upto cs (length cs)"
    and c: "count st = length cs mod 100"
    by simp_all
  show ?case
  proof (cases "Suc (length cs) mod 100 = 0")
    case True
    then have "count st + 1 = 100"
      using c count_full [of "length cs"] by simp
    then have "transform st x = (\<lparr>bytesRead = bytesRead st + length x, count = 0\<rparr>,
        [ProgressUpdate (bytesRead st + length x), Push x])"
      by (rule transform_full)
    then show ?thesis
      using True by (simp add: transform_all_snoc t b bytes_upto_snoc)
  next
    case False
    then have n: "count st + 1 \<noteq> 100"
      using c count_full [of "length cs"] by simp
    have m: "count st + 1 = Suc (length cs) mod 100"
      using c count_part [OF False] by simp
    have "transform st x = (\<lparr>bytesRead = bytesRead st + length x, count = count st + 1\<rparr>, [Push x])"
      using n by (rule transform_part)
    then show ?thesis
      using m by (simp add: transform_all_snoc t b bytes_upto_snoc)
  qed
qed

lemma progress_after:
  "filter is_progress (snd (transform_all \<lparr>bytesRead = 0, count = 0\<rparr> cs)) =
     map (\<lambda>j. ProgressUpdate (bytes_upto cs (100 * j))) [1..<Suc (length cs div 100)]"
proof (induction cs rule: rev_induct)
  case Nil
  show ?case by simp
next
  case (snoc x cs)
  let ?init = "\<lparr>bytesRead = 0, count = 0\<rparr>"
  obtain st es where t: "transform_all ?init cs = (st, es)"
    by (cases "transform_all ?init cs")
  have b: "bytesRead st = bytes_upto cs (length cs)" and c: "count st = length cs mod 100"
    using state_after [of cs] t by simp_all
  have es: "filter is_progress es =
      map (\<lambda>j. ProgressUpdate (bytes_upto cs (100 * j))) [1..<Suc (length cs div 100)]"
    using snoc.IH t by simp
  have old: "map (\<lambda>j. ProgressUpdate (bytes_upto (cs @ [x]) (100 * j))) [1..<Suc (length cs div 100)] =
      map (\<lambda>j. ProgressUpdate (bytes_upto cs (100 * j))) [1..<Suc (length cs div 100)]"
  proof (rule map_cong [OF refl])
    fix j assume "j \<in> set [1..<Suc (length cs div 100)]"
    then have "j \<le> length cs div 100" by auto
    then have "100 * j \<le> 100 * (length cs div 100)" by simp
    also have "\<dots> \<le> length cs" by simp
    finally have "100 * j \<le> length cs" .
    then show "ProgressUpdate (bytes_upto (cs @ [x]) (100 * j)) = ProgressUpdate (bytes_upto cs (100 * j))"
      by (simp add: bytes_upto_def)
  qed
  show ?case
  proof (cases "Suc (length cs) mod 100 = 0")
    case True
    then have "count st + 1 = 100"
      using c count_full [of "length cs"] by simp
    then have tr: "transform st x = (\<lparr>bytesRead = bytesRead st + length x, count = 0\<rparr>,
        [ProgressUpdate (bytesRead st + length x), Push x])"
      by (rule transform_full)
    have d: "length (cs @ [x]) div 100 = Suc (length cs div 100)"
      using div_step_full [OF True] by simp
    have e: "100 * Suc (length cs div 100) = Suc (length cs)"
      using True by (rule hundred_full)
    have l: "[1..<Suc (Suc (length cs div 100))] = [1..<Suc (length cs div 100)] @ [Suc (length cs div 100)]"
      by simp
    have new: "bytes_upto (cs @ [x]) (100 * Suc (length cs div 100)) = bytesRead st + length x"
      unfolding e by (simp add: bytes_upto_snoc b)
    show ?thesis
      unfolding d l map_append old
      by (simp add: transform_all_snoc t tr es new del: mult_Suc_right)
  next
    case False
    then have n: "count st + 1 \<noteq> 100"
      using c count_full [of "length cs"] by simp
    have tr: "transform st x = (\<lparr>bytesRead = bytesRead st + length x, count = count st + 1\<rparr>, [Push x])"
      using n by (rule transform_part)
    have d: "length (cs @ [x]) div 100 = length cs div 100"
      using div_step_part [OF False] by simp
    show ?thesis
      unfolding d old
      by (simp add: transform_all_snoc t tr es)
  qed
qed

lemma pushes_after:
  "filter is_push (snd (transform_all st cs)) = map Push cs"
proof (induction cs arbitrary: st)
  case Nil
  show ?case by simp
next
  case (Cons c cs)
  obtain st' es where t: "transform st c = (st', es)"
    by (cases "transform st c")
  obtain st'' es' where u: "transform_all st' cs = (st'', es')"
    by (cases "transform_all st' cs")
  have "filter is_push (snd (transform st c)) = [Push c]"
    by (simp add: transform_def Let_def)
  then have e: "filter is_push es = [Push c]"
    by (simp add: t)
  have e': "filter is_push es' = map Push cs"
    using Cons.IH [of st'] by (simp add: u)
  show ?case
    by (simp add: t u e e')
qed

text \<open>
  Claim C8. For an input of any chunks: the progress bar is started with the file size
  (and value 0); while the chunks pass it is updated once after every hundredth chunk,
  the \<open>j\<close>-th update carrying the bytes of the first \<open>100 * j\<close> chunks, so
  \<open>length chunks div 100\<close> updates in all and none on the other chunks; at the flush it
  is set to the file size and stopped. The chunks themselves are passed on unchanged.
\<close>

theorem progress_sampling:
  "filter is_progress (stream_effects fsize chunks) =
     [ProgressStart fsize 0] @
     map (\<lambda>j. ProgressUpdate (bytes_upto chunks (100 * j))) [1..<Suc (length chunks div 100)] @
     [ProgressUpdate fsize, ProgressStop] \<and>
   length (filter is_progress (snd (transform_all \<lparr>bytesRead = 0, count = 0\<rparr> chunks))) =
     length chunks div 100 \<and>
   filter is_push (stream_effects fsize chunks) = map Push chunks"
proof -
  have a: "filter is_progress (stream_effects fsize chunks) =
     [ProgressStart fsize 0] @
     map (\<lambda>j. ProgressUpdate (bytes_upto chunks (100 * j))) [1..<Suc (length chunks div 100)] @
     [ProgressUpdate fsize, ProgressStop]"
    by (simp add: stream_effects_def createTransformStream_def flush_def progress_after)
  have b: "length (filter is_progress (snd (transform_all \<lparr>bytesRead = 0, count = 0\<rparr> chunks))) =
     length chunks div 100"
    by (simp add: progress_after)
  have c: "filter is_push (stream_effects fsize chunks) = map Push chunks"
    by (simp add: stream_effects_def createTransformStream_def flush_def pushes_after)
  from a b c show ?thesis by blast
qed

subsection \<open>The webhook message\<close>

lemma foldl_plus:
  "foldl (\<lambda>acc p. acc + f p) a xs = a + sum_list (map f xs)"
  for a :: nat
  by (induction xs arbitrary: a) (simp_all add: add.assoc)

lemma total_error_sum: "total_error r = sum_list (map (\<lambda>p. error_count (snd p)) r)"
  by (simp add: total_error_def foldl_plus)

lemma total_drop_sum: "total_drop r = sum_list (map (\<lambda>p. drop_count (snd p)) r)"
  by (simp add: total_drop_def foldl_plus)

lemma total_scrambling_sum:
  "total_scrambling r = sum_list (map (\<lambda>p. scrambling_count (snd p)) r)"
  by (simp add: total_scrambling_def foldl_plus)

text \<open>No run makes a request: the only call of \<open>https.request\<close> throws.\<close>

lemma no_request_in_epilogue: "filter is_request (fst (run_epilogue dc env)) = []"
  by (cases "getResult env"; cases "stop env"; cases "isPostToSlack dc")
     (simp_all add: run_epilogue_def on_failure_eq printDropResult_def postToSlack_throws
        Let_def)

lemma no_request_made: "filter is_request (fst (run dc env)) = []"
  by (cases "awaited env")
     (simp_all add: run_cases run_prologue_def createTransformStream_def on_failure_eq
        no_request_in_epilogue)

text \<open>
  The condition \<open>hasProblem\<close> is false exactly when each of the three totals is a multiple
  of \<open>2 ^ 32\<close>; for totals below \<open>2 ^ 32\<close> that is when all three are 0.
\<close>

lemma hasProblem_iff:
  "truthy (hasProblem e d s) \<longleftrightarrow> \<not> (2 ^ 32 dvd e \<and> 2 ^ 32 dvd d \<and> 2 ^ 32 dvd s)"
  by (simp add: truthy_def hasProblem_def or_eq_0_iff word_of_nat_eq_0_iff)

lemma small_dvd: "x < 2 ^ 32 \<Longrightarrow> (2 ^ 32 dvd x) = (x = 0)"
  for x :: nat
  by (cases "x = 0") (simp_all add: nat_dvd_not_less)

lemma hasProblem_small:
  "e < 2 ^ 32 \<Longrightarrow> d < 2 ^ 32 \<Longrightarrow> s < 2 ^ 32 \<Longrightarrow>
   truthy (hasProblem e d s) \<longleftrightarrow> e \<noteq> 0 \<or> d \<noteq> 0 \<or> s \<noteq> 0"
  unfolding hasProblem_iff
  using small_dvd [of e] small_dvd [of d] small_dvd [of s] by blast

lemma string_of_two_to_32: "string_of_nat 4294967296 = ''4294967296''"
  by (simp add: string_of_nat.simps digit_char_def)

lemma hasProblem_two_to_32: "hasProblem 4294967296 0 0 = 0"
  by (simp add: hasProblem_def)

text \<open>
  Claim C2 at a run with the webhook flag and a result with one error: no request is
  made, nothing is written to a request, and the process exits with code 1 after the
  diagnostic of line 111. The creation of the request throws on the address in the
  source.
\<close>

theorem webhook_post_never_made:
  "postToSlack \<lparr>srcM2tsPath = ''a.m2ts'', dstLogDirPath = None, isPostToSlack = True\<rparr>
     [(256, \<lparr>error_count = 1, drop_count = 0, scrambling_count = 0\<rparr>)] =
     ([], Some (Error ''ERR_INVALID_URL'')) \<and>
   run \<lparr>srcM2tsPath = ''a.m2ts'', dstLogDirPath = None, isPostToSlack = True\<rparr>
     (sample_env\<lparr>getResult :=
        Resolved [(256, \<lparr>error_count = 1, drop_count = 0, scrambling_count = 0\<rparr>)]\<rparr>) =
     ([Stdout CheckStarted, LoggerInitialize, CreateReadStream ''a.m2ts'', ProgressStart 376 0,
       Pipe, CheckerStart ''/rec'' ''a.m2ts'',
       CheckerGetResult, CheckerStop, TransformEnd, TransformUnpipe, ReadableClose,
       Stdout CheckFinished, Stdout (Text ''error      : 1''), Stdout (Text ''drop       : 0''),
       Stdout (Text ''scrambling : 0''),
       Stderr ReleaseFailed, Stderr (Detail (Error ''ERR_INVALID_URL'')), CheckerStop,
       TransformEnd, TransformUnpipe, ReadableClose],
      Exited 1)"
proof -
  let ?dc = "\<lparr>srcM2tsPath = ''a.m2ts'', dstLogDirPath = None, isPostToSlack = True\<rparr>"
  let ?r = "[(256 :: nat, \<lparr>error_count = 1, drop_count = 0, scrambling_count = 0\<rparr>)]"
  let ?env = "sample_env\<lparr>getResult := Resolved ?r\<rparr>"
  have t: "postToSlack ?dc ?r = ([], Some (Error ''ERR_INVALID_URL''))"
    by (rule postToSlack_throws)
  have r: "run ?dc ?env =
     (run_prologue ?dc ?env @
      [CheckerGetResult, CheckerStop, TransformEnd, TransformUnpipe, ReadableClose,
       Stdout CheckFinished] @ printDropResult ?r @
      [Stderr ReleaseFailed, Stderr (Detail (Error ''ERR_INVALID_URL'')), CheckerStop,
       TransformEnd, TransformUnpipe, ReadableClose],
      Exited 1)"
    by (rule run_webhook) (simp_all add: sample_env_def)
  have p: "printDropResult ?r =
     [Stdout (Text ''error      : 1''), Stdout (Text ''drop       : 0''),
      Stdout (Text ''scrambling : 0'')]"
    by (simp add: printDropResult_def total_error_def total_drop_def total_scrambling_def
        string_of_nat.simps digit_char_def)
  show ?thesis
    unfolding r p sample_prologue using t by simp
qed

text \<open>
  The payload that is built before the request (lines 180-215), at an error total of
  \<open>2 ^ 32\<close>: the total is shown in bold as a non-zero count, but the message is not
  marked: no here-mention, no \<open>[!]\<close> before the path, and the check mark in place of the
  warning sign. With one error the message is marked.
\<close>

lemma slack_payload_at_two_to_32:
  "slack_payload \<lparr>srcM2tsPath = ''a.m2ts'', dstLogDirPath = None, isPostToSlack = True\<rparr>
     [(256, \<lparr>error_count = 4294967296, drop_count = 0, scrambling_count = 0\<rparr>)] =
   JObject [(''text'', JString ''a.m2ts''),
            (''blocks'',
             JArray [section_block '':white_check_mark: *E:4294967296* D:0 S:0'',
                     section_block ''>a.m2ts''])]"
  by (simp add: slack_payload_def slack_texts_def total_error_def
      total_drop_def total_scrambling_def hasProblem_two_to_32 truthy_def resultMrkdwn_def
      string_of_two_to_32 Let_def)

lemma slack_payload_at_one:
  "slack_payload \<lparr>srcM2tsPath = ''a.m2ts'', dstLogDirPath = None, isPostToSlack = True\<rparr>
     [(256, \<lparr>error_count = 1, drop_count = 0, scrambling_count = 0\<rparr>)] =
   JObject [(''text'', JString ''[!] a.m2ts''),
            (''blocks'',
             JArray [section_block ''<!here>'',
                     section_block '':warning: *E:1* D:0 S:0'',
                     section_block ''>a.m2ts''])]"
  by (simp add: slack_payload_def slack_texts_def total_error_def
      total_drop_def total_scrambling_def hasProblem_def truthy_def resultMrkdwn_def
      string_of_nat.simps digit_char_def Let_def)

section \<open>Properties of the stream integrity analyzer\<close>

lemma process_frame_other: "pid f \<noteq> p \<Longrightarrow> process_frame tbl f p = tbl p"
  by (simp add: process_frame_def Let_def)

lemma first_frame:
  "p \<noteq> NULL_PID \<Longrightarrow> expected_of tbl p = None \<Longrightarrow>
   expected_of (process_frame tbl (payload_frame p c)) p = Some c \<and>
   drops_of (process_frame tbl (payload_frame p c)) p = drops_of tbl p"
  by (cases "tbl p")
     (simp_all add: process_frame_def payload_frame_def track_def expected_of_def drops_of_def
        new_channel_def Let_def)

lemma next_frame:
  "p \<noteq> NULL_PID \<Longrightarrow> expected_of tbl p = Some e \<Longrightarrow>
   expected_of (process_frame tbl (payload_frame p c)) p = Some c \<and>
   drops_of (process_frame tbl (payload_frame p c)) p = drops_of tbl p + charge e c"
  by (cases "tbl p")
     (simp_all add: process_frame_def payload_frame_def track_def expected_of_def drops_of_def
        discontinuity_def Let_def)

lemma charge_next: "charge e (e + 1) = 0"
  by (simp add: charge_def)

lemma continuous_run:
  "p \<noteq> NULL_PID \<Longrightarrow> expected_of tbl p = Some e \<Longrightarrow>
   expected_of (foldl process_frame tbl (payload_frames p (e + 1) n)) p = Some (e + of_nat n) \<and>
   drops_of (foldl process_frame tbl (payload_frames p (e + 1) n)) p = drops_of tbl p"
proof (induction n arbitrary: tbl e)
  case 0
  then show ?case by simp
next
  case (Suc n)
  let ?t = "process_frame tbl (payload_frame p (e + 1))"
  have s: "expected_of ?t p = Some (e + 1) \<and> drops_of ?t p = drops_of tbl p"
    using next_frame [OF Suc.prems, of "e + 1"] by (simp add: charge_next)
  then have e1: "expected_of ?t p = Some (e + 1)" by simp
  have "expected_of (foldl process_frame ?t (payload_frames p (e + 1 + 1) n)) p = Some (e + 1 + of_nat n) \<and>
      drops_of (foldl process_frame ?t (payload_frames p (e + 1 + 1) n)) p = drops_of ?t p"
    using Suc.prems(1) e1 by (rule Suc.IH)
  then show ?case using s by (simp add: add.assoc add.commute)
qed

lemma charge_gap:
  "charge e (e + 1 + of_nat k) = (if 16 dvd k \<or> 16 dvd Suc k then 0 else k mod 16)"
proof -
  have z: "(of_nat k :: 4 word) = 0 \<longleftrightarrow> 16 dvd k"
    by (simp add: word_of_nat_eq_0_iff)
  have "(1 + of_nat k :: 4 word) = of_nat (Suc k)"
    by simp
  then have y: "(1 + of_nat k :: 4 word) = 0 \<longleftrightarrow> 16 dvd Suc k"
    by (simp only: word_of_nat_eq_0_iff) simp
  have c1: "e + 1 + of_nat k = e + 1 \<longleftrightarrow> 16 dvd k"
    using z by simp
  have "e + 1 + of_nat k = e + (1 + of_nat k)"
    by (simp add: add.assoc)
  then have c2: "e + 1 + of_nat k = e \<longleftrightarrow> 16 dvd Suc k"
    using y by (simp only: add_cancel_left_right)
  have d: "e + 1 + of_nat k - (e + 1) = of_nat k"
    by simp
  have u: "unat (of_nat k :: 4 word) = k mod 16"
    by (simp add: unat_of_nat)
  show ?thesis
    unfolding charge_def c1 c2 d u by simp
qed

lemma charge_small: "k < 15 \<Longrightarrow> charge e (e + 1 + of_nat k) = k"
  unfolding charge_gap
  by (cases "k = 0") (simp_all add: nat_dvd_not_less)


lemma first_run:
  "p \<noteq> NULL_PID \<Longrightarrow> expected_of tbl p = None \<Longrightarrow>
   expected_of (foldl process_frame tbl (payload_frames p c (Suc n))) p = Some (c + of_nat n) \<and>
   drops_of (foldl process_frame tbl (payload_frames p c (Suc n))) p = drops_of tbl p"
proof -
  assume p: "p \<noteq> NULL_PID" and e: "expected_of tbl p = None"
  let ?t = "process_frame tbl (payload_frame p c)"
  have f: "expected_of ?t p = Some c \<and> drops_of ?t p = drops_of tbl p"
    using p e by (rule first_frame)
  then have "expected_of ?t p = Some c" by simp
  with p have "expected_of (foldl process_frame ?t (payload_frames p (c + 1) n)) p = Some (c + of_nat n) \<and>
      drops_of (foldl process_frame ?t (payload_frames p (c + 1) n)) p = drops_of ?t p"
    by (rule continuous_run)
  then show ?thesis using f by simp
qed

lemma gap_run:
  assumes p: "p \<noteq> NULL_PID"
  shows "drops_of (analyze (with_gap p c (Suc m) k (Suc n))) p =
     (if 16 dvd k \<or> 16 dvd Suc k then 0 else k mod 16)"
proof -
  let ?t1 = "foldl process_frame Map.empty (payload_frames p c (Suc m))"
  let ?c2 = "c + of_nat (Suc m) + of_nat k"
  let ?t2 = "process_frame ?t1 (payload_frame p ?c2)"
  have "expected_of (Map.empty :: 13 word \<rightharpoonup> channel) p = None"
    by (simp add: expected_of_def)
  with p have a: "expected_of ?t1 p = Some (c + of_nat m) \<and> drops_of ?t1 p = drops_of Map.empty p"
    by (rule first_run)
  then have a1: "expected_of ?t1 p = Some (c + of_nat m)" and a2: "drops_of ?t1 p = 0"
    by (simp_all add: drops_of_def)
  have b: "expected_of ?t2 p = Some ?c2 \<and> drops_of ?t2 p = drops_of ?t1 p + charge (c + of_nat m) ?c2"
    using p a1 by (rule next_frame)
  have c2: "?c2 = c + of_nat m + 1 + of_nat k"
    by simp
  have g: "charge (c + of_nat m) ?c2 = (if 16 dvd k \<or> 16 dvd Suc k then 0 else k mod 16)"
    unfolding c2 by (rule charge_gap)
  from b have b1: "expected_of ?t2 p = Some ?c2" by simp
  with p have d: "expected_of (foldl process_frame ?t2 (payload_frames p (?c2 + 1) n)) p = Some (?c2 + of_nat n) \<and>
      drops_of (foldl process_frame ?t2 (payload_frames p (?c2 + 1) n)) p = drops_of ?t2 p"
    by (rule continuous_run)
  have "analyze (with_gap p c (Suc m) k (Suc n)) = foldl process_frame ?t2 (payload_frames p (?c2 + 1) n)"
    by (simp add: analyze_def with_gap_def)
  then show ?thesis
    using d b a2 g by simp
qed

lemma duplicate_frame:
  "expected_of tbl (pid f) = Some (continuity_counter f) \<Longrightarrow>
   drops_of (process_frame tbl f) (pid f) = drops_of tbl (pid f)"
  by (cases "tbl (pid f)")
     (auto simp: process_frame_def track_def expected_of_def drops_of_def charge_def Let_def)

lemma untracked_frame:
  "\<not> tracked p f \<Longrightarrow>
   expected_of (process_frame tbl f) p = expected_of tbl p \<and>
   drops_of (process_frame tbl f) p = drops_of tbl p"
proof (cases "pid f = p")
  case False
  then show ?thesis
    by (simp add: process_frame_other expected_of_def drops_of_def)
next
  case True
  assume "\<not> tracked p f"
  with True have "\<not> has_payload (afc f)"
    by (cases "afc f") (simp_all add: tracked_def)
  with True show ?thesis
    by (cases "tbl p")
       (auto simp: process_frame_def expected_of_def drops_of_def new_channel_def Let_def)
qed

lemma tracked_frame:
  assumes "p \<noteq> NULL_PID" "tracked p f" "\<not> discontinuity f"
  shows "expected_of (process_frame tbl f) p = Some (continuity_counter f) \<and>
   drops_of (process_frame tbl f) p =
     drops_of tbl p + count_drops (expected_of tbl p) [continuity_counter f]"
proof -
  from assms(2) have pf: "pid f = p" and hp: "has_payload (afc f)"
    by (auto simp: tracked_def)
  show ?thesis
    using assms(1,3) pf hp
    by (cases "tbl p"; cases "expected (the (tbl p))")
       (auto simp: process_frame_def track_def expected_of_def drops_of_def new_channel_def Let_def)
qed

lemma count_drops_Cons:
  "count_drops e (c # cs) = count_drops e [c] + count_drops (Some c) cs"
  by (cases e) simp_all

lemma channel_drops:
  assumes p: "p \<noteq> NULL_PID"
  shows "(\<forall>f \<in> set fs. tracked p f \<longrightarrow> \<not> discontinuity f) \<Longrightarrow>
   drops_of (foldl process_frame tbl fs) p =
     drops_of tbl p + count_drops (expected_of tbl p) (map continuity_counter (filter (tracked p) fs))"
proof (induction fs arbitrary: tbl)
  case Nil
  show ?case by simp
next
  case (Cons f fs)
  let ?t = "process_frame tbl f"
  have rest: "\<forall>g \<in> set fs. tracked p g \<longrightarrow> \<not> discontinuity g"
    using Cons.prems by simp
  have ih: "drops_of (foldl process_frame ?t fs) p =
      drops_of ?t p + count_drops (expected_of ?t p) (map continuity_counter (filter (tracked p) fs))"
    using rest by (rule Cons.IH)
  show ?case
  proof (cases "tracked p f")
    case False
    then show ?thesis
      using ih untracked_frame [OF False, of tbl] by simp
  next
    case True
    then have "\<not> discontinuity f" using Cons.prems by simp
    with p True have s: "expected_of ?t p = Some (continuity_counter f) \<and>
        drops_of ?t p = drops_of tbl p + count_drops (expected_of tbl p) [continuity_counter f]"
      by (rule tracked_frame)
    show ?thesis
      using ih s True
      count_drops_Cons [of "expected_of tbl p" "continuity_counter f"
        "map continuity_counter (filter (tracked p) fs)"]
      by simp
  qed
qed

lemma analyze_drops:
  "p \<noteq> NULL_PID \<Longrightarrow> (\<forall>f \<in> set fs. tracked p f \<longrightarrow> \<not> discontinuity f) \<Longrightarrow>
   drops_of (analyze fs) p = count_drops None (map continuity_counter (filter (tracked p) fs))"
  using channel_drops [of p fs Map.empty]
  by (simp add: analyze_def drops_of_def expected_of_def)

lemma counters_payload_frames:
  "map continuity_counter (payload_frames p c n) = map (\<lambda>i. c + of_nat i) [0..<n]"
proof (induction n arbitrary: c)
  case 0
  show ?case by simp
next
  case (Suc n)
  have "[0..<Suc n] = 0 # map Suc [0..<n]"
    by (simp add: upt_conv_Cons map_Suc_upt del: upt_Suc)
  then show ?case
    by (simp add: Suc.IH payload_frame_def comp_def add.assoc del: upt_Suc)
qed

lemma tracked_payload_frames: "filter (tracked p) (payload_frames p c n) = payload_frames p c n"
  by (induction n arbitrary: c) (simp_all add: tracked_def payload_frame_def)

lemma quiet_payload_frames: "f \<in> set (payload_frames p c n) \<Longrightarrow> \<not> discontinuity f"
  by (induction n arbitrary: c) (auto simp: discontinuity_def payload_frame_def)

lemma counters_with_gap:
  "map continuity_counter (filter (tracked p) (with_gap p c m k n)) = gap_counters c m k n"
  by (simp add: with_gap_def gap_counters_def tracked_payload_frames counters_payload_frames)

lemma quiet_with_gap:
  "\<forall>f \<in> set (with_gap p c m k n). tracked p f \<longrightarrow> \<not> discontinuity f"
  by (auto simp: with_gap_def dest: quiet_payload_frames)

lemma with_gap_drops:
  "p \<noteq> NULL_PID \<Longrightarrow>
   drops_of (analyze (with_gap p c m k n)) p = count_drops None (gap_counters c m k n)"
  using analyze_drops [of p "with_gap p c m k n"] quiet_with_gap [of p c m k n]
  by (simp add: counters_with_gap)

lemma upto_two: "[0..<2] = [0, 1]"
  by code_simp

lemma upto_three: "[0..<3] = [0, 1, 2]"
  by code_simp

text \<open>
  Claim C4, as amended. Take any stream, any channel \<open>p\<close> but the null channel, and look
  at the payload-bearing frames of \<open>p\<close> in it (payload only, or adaptation field and
  payload; with or without error indicator, scrambled or not; frames of other channels
  and frames of \<open>p\<close> without payload may lie between them). When none of them asserts
  the discontinuity indicator and their counters are \<open>m\<close> consecutive values, a jump of
  \<open>k + 1\<close> with \<open>k\<close> at most 14, and \<open>n\<close> more consecutive values, the drop count of the
  channel is \<open>k\<close>. And a frame whose counter equals the last observed counter of its
  channel leaves the drop count of the channel unchanged.
\<close>

theorem gap_drop_count:
  "(p \<noteq> NULL_PID \<and> 0 < m \<and> 0 < n \<and> k < 15 \<and>
    (\<forall>g \<in> set fs. pid g = p \<and> afc g = AdaptationAndPayload \<longrightarrow> \<not> discontinuity_indicator g) \<and>
    map continuity_counter (filter (tracked p) fs) = gap_counters c m k n \<longrightarrow>
      drops_of (analyze fs) p = k) \<and>
   (expected_of (analyze fs) (pid f) = Some (continuity_counter f) \<longrightarrow>
      drops_of (analyze (fs @ [f])) (pid f) = drops_of (analyze fs) (pid f))"
proof -
  have g: "p \<noteq> NULL_PID \<and> 0 < m \<and> 0 < n \<and> k < 15 \<and>
    (\<forall>g \<in> set fs. pid g = p \<and> afc g = AdaptationAndPayload \<longrightarrow> \<not> discontinuity_indicator g) \<and>
    map continuity_counter (filter (tracked p) fs) = gap_counters c m k n \<longrightarrow>
      drops_of (analyze fs) p = k"
  proof (intro impI, elim conjE)
    assume p: "p \<noteq> NULL_PID" and m: "0 < m" and n: "0 < n" and k: "k < 15"
      and q: "\<forall>g \<in> set fs. pid g = p \<and> afc g = AdaptationAndPayload \<longrightarrow> \<not> discontinuity_indicator g"
      and cs: "map continuity_counter (filter (tracked p) fs) = gap_counters c m k n"
    obtain m' n' where mn: "m = Suc m'" "n = Suc n'"
      using m n by (metis Suc_pred)
    have quiet: "\<forall>g \<in> set fs. tracked p g \<longrightarrow> \<not> discontinuity g"
    proof (intro ballI impI)
      fix g assume "g \<in> set fs" and "tracked p g"
      with q show "\<not> discontinuity g"
        by (cases "afc g") (auto simp: tracked_def discontinuity_def)
    qed
    have "drops_of (analyze fs) p = count_drops None (gap_counters c m k n)"
      using analyze_drops [OF p quiet] cs by simp
    also have "\<dots> = drops_of (analyze (with_gap p c m k n)) p"
      using p by (simp add: with_gap_drops)
    also have "\<dots> = (if 16 dvd k \<or> 16 dvd Suc k then 0 else k mod 16)"
      unfolding mn using p by (rule gap_run)
    also have "\<dots> = k"
      using k by (cases "k = 0") (simp_all add: nat_dvd_not_less)
    finally show "drops_of (analyze fs) p = k" .
  qed
  have d: "expected_of (analyze fs) (pid f) = Some (continuity_counter f) \<longrightarrow>
      drops_of (analyze (fs @ [f])) (pid f) = drops_of (analyze fs) (pid f)"
    by (simp add: analyze_def duplicate_frame)
  from g d show ?thesis by blast
qed

theorem gap_drop_count_witness:
  "drops_of (analyze sample_frames) 256 = 2 \<and>
   drops_of (analyze (sample_frames @ [payload_frame 256 4])) 256 =
     drops_of (analyze sample_frames) 256"
proof -
  have h: "(256 :: 13 word) \<noteq> NULL_PID \<and> (0::nat) < 3 \<and> (0::nat) < 2 \<and> (2::nat) < 15 \<and>
      (\<forall>g \<in> set sample_frames.
          pid g = 256 \<and> afc g = AdaptationAndPayload \<longrightarrow> \<not> discontinuity_indicator g) \<and>
      map continuity_counter (filter (tracked 256) sample_frames) = gap_counters 14 3 2 2"
    by (simp add: NULL_PID_def sample_frames_def payload_frame_def tracked_def
        gap_counters_def upto_two upto_three)
  have a: "drops_of (analyze sample_frames) 256 = 2"
    using gap_drop_count [where p = 256 and m = 3 and n = 2 and k = 2 and fs = sample_frames
      and c = 14] h
    by blast
  have e: "expected_of (analyze sample_frames) (pid (payload_frame 256 4)) =
      Some (continuity_counter (payload_frame 256 4))"
    by (simp add: analyze_def sample_frames_def payload_frame_def process_frame_def NULL_PID_def
        track_def new_channel_def discontinuity_def expected_of_def Let_def)
  have b: "drops_of (analyze (sample_frames @ [payload_frame 256 4])) 256 =
      drops_of (analyze sample_frames) 256"
    using gap_drop_count [where fs = sample_frames and f = "payload_frame 256 4"] e
    by (simp add: payload_frame_def)
  from a b show ?thesis by blast
qed

text \<open>
  Claim C4, as stated, fails when 15 frames are missing: the counter after the gap equals
  the counter before it, the frame is taken for a duplicate, and nothing is charged.
\<close>

theorem gap_of_fifteen_uncounted:
  "drops_of (analyze (with_gap 256 0 1 15 1)) 256 = 0 \<and>
   drops_of (analyze (with_gap 256 0 1 15 1)) 256 \<noteq> 15"
  by (simp add: analyze_def with_gap_def payload_frame_def process_frame_def NULL_PID_def
      track_def new_channel_def discontinuity_def charge_def drops_of_def Let_def)


end
